theory Spec2Isabelle
  imports Complex_Main "HOL-Library.Sublist"
begin

section \<open>JavaScript values\<close>

text \<open>
  Rows and push payloads arrive from the backend client untyped. A value is modelled by
  the cases the components test for: \<open>undefined\<close>, \<open>null\<close>, booleans, numbers,
  strings and objects (an association list of properties). Numbers are the integers that
  counts and capacities are; \<open>NaN\<close>, infinities and fractions are not values of a stored
  count.
\<close>

datatype jsval =
    JUndefined
  | JNull
  | JBool bool
  | JNum int
  | JStr string
  | JObj "(string \<times> jsval) list"

text \<open>Truthiness, as \<open>if (v)\<close>, \<open>v && ...\<close> and \<open>!v\<close> read it.\<close>

fun truthy :: "jsval \<Rightarrow> bool" where
  "truthy JUndefined = False"
| "truthy JNull = False"
| "truthy (JBool b) = b"
| "truthy (JNum n) = (n \<noteq> 0)"
| "truthy (JStr s) = (s \<noteq> [])"
| "truthy (JObj _) = True"

text \<open>The \<open>typeof\<close> operator.\<close>

fun typeof :: "jsval \<Rightarrow> string" where
  "typeof JUndefined = ''undefined''"
| "typeof JNull = ''object''"
| "typeof (JBool _) = ''boolean''"
| "typeof (JNum _) = ''number''"
| "typeof (JStr _) = ''string''"
| "typeof (JObj _) = ''object''"

text \<open>
  Property access \<open>v.name\<close> on a value the code has already found truthy: an object
  yields the property or \<open>undefined\<close>; a primitive has no own data properties.
\<close>

fun getProp :: "jsval \<Rightarrow> string \<Rightarrow> jsval" where
  "getProp (JObj fs) name = (case map_of fs name of None \<Rightarrow> JUndefined | Some v \<Rightarrow> v)"
| "getProp _ name = JUndefined"

section \<open>Backend reads\<close>

text \<open>
  An awaited read either resolves to a response \<open>{ data, error }\<close> or rejects (the
  \<open>await\<close> throws). \<open>data\<close> is \<open>null\<close> when no row came back; an error is
  represented by its \<open>code\<close>.
\<close>

datatype 'a awaited =
    Resolved (data: "'a option") (error: "string option")
  | Rejected string

datatype console_line = ConsoleLog string | ConsoleError string

section \<open>Incident statistics (Dashboard)\<close>

record incident =
  incident_type :: string
  is_closed :: bool
  action_taken :: jsval

record incident_stats =
  total' :: nat
  high :: nat
  open' :: nat
  inProgress :: nat
  closed' :: nat
  logged :: nat
  avgResolution :: nat
  refusals :: nat
  ejections :: nat
  medical :: nat

text \<open>The object literal passed to \<open>setIncidentStats\<close> in \<open>fetchIncidentStats\<close>.\<close>

definition computeIncidentStats :: "incident list \<Rightarrow> incident_stats" where
  "computeIncidentStats incidents =
     (let nonSitRepIncidents = filter (\<lambda>i. incident_type i \<noteq> ''Sit Rep'') incidents;
          sitRepIncidents = filter (\<lambda>i. incident_type i = ''Sit Rep'') incidents
      in \<lparr> total' = length incidents,
           high = length (filter (\<lambda>i. incident_type i \<in>
                    set [''Ejection'', ''Code Green'', ''Code Black'', ''Code Pink''])
                    incidents),
           open' = length (filter (\<lambda>i. \<not> is_closed i) nonSitRepIncidents),
           inProgress = length (filter (\<lambda>i. \<not> is_closed i \<and> truthy (action_taken i))
                          nonSitRepIncidents),
           closed' = length (filter (\<lambda>i. is_closed i) nonSitRepIncidents),
           logged = length sitRepIncidents,
           avgResolution = 0,
           refusals = length (filter (\<lambda>i. incident_type i = ''Refusal'') incidents),
           ejections = length (filter (\<lambda>i. incident_type i = ''Ejection'') incidents),
           medical = length (filter (\<lambda>i. incident_type i \<in>
                       set [''Code Green'', ''Code Purple'']) incidents) \<rparr>)"

text \<open>The initial value of the \<open>incidentStats\<close> state.\<close>

definition initialIncidentStats :: incident_stats where
  "initialIncidentStats =
     \<lparr> total' = 0, high = 0, open' = 0, inProgress = 0, closed' = 0, logged = 0,
       avgResolution = 0, refusals = 0, ejections = 0, medical = 0 \<rparr>"

section \<open>Strings, numbers and dates\<close>

text \<open>
  \<open>s.split(c)\<close> for a one-character separator. The result is never empty: the empty
  string gives one empty piece.
\<close>

fun splitOn :: "char \<Rightarrow> string \<Rightarrow> string list" where
  "splitOn c [] = [[]]"
| "splitOn c (x # xs) =
     (if x = c then [] # splitOn c xs
      else (case splitOn c xs of [] \<Rightarrow> [[x]] | r # rs \<Rightarrow> (x # r) # rs))"

definition isDigit :: "char \<Rightarrow> bool" where
  "isDigit c = (c \<in> set ''0123456789'')"

definition digitValue :: "char \<Rightarrow> nat" where
  "digitValue c = of_char c - 48"

text \<open>
  \<open>Number(s)\<close> on a piece of a clock time. A string of decimal digits is its value and
  the empty string is 0, as in JavaScript; every other text is \<open>NaN\<close> (\<open>None\<close>) here.
  JavaScript also reads signs, blanks, fractions, exponents and hexadecimal: the model is
  exact on the pieces of a clock time \<open>HH:MM\<close> or \<open>HH:MM:SS\<close>, which is what
  \<open>isClockTime\<close> below describes and what the theorems about times assume.
\<close>

definition Number :: "string \<Rightarrow> int option" where
  "Number s =
     (if list_all isDigit s then Some (int (foldl (\<lambda>n c. 10 * n + digitValue c) 0 s))
      else None)"

text \<open>
  \<open>const [hours, minutes] = t.split(':').map(Number)\<close> followed by
  \<open>hours * 60 + minutes\<close>: a missing second piece is \<open>undefined\<close>, and arithmetic on
  \<open>undefined\<close> or \<open>NaN\<close> is \<open>NaN\<close>.
\<close>

definition hoursMinutes :: "string \<Rightarrow> int option \<times> int option" where
  "hoursMinutes t =
     (case map Number (splitOn CHR '':'' t) of
        [] \<Rightarrow> (None, None)
      | [h] \<Rightarrow> (h, None)
      | h # m # _ \<Rightarrow> (h, m))"

definition timeInMinutes :: "string \<Rightarrow> int option" where
  "timeInMinutes t =
     (case hoursMinutes t of
        (Some hours, Some minutes) \<Rightarrow> Some (hours * 60 + minutes)
      | _ \<Rightarrow> None)"

text \<open>A well-formed time of day: \<open>HH:MM\<close> or \<open>HH:MM:SS\<close>, two digits each, in range.\<close>

definition twoDigits :: "string \<Rightarrow> nat \<Rightarrow> bool" where
  "twoDigits s bound =
     (length s = 2 \<and> list_all isDigit s \<and> (case Number s of Some n \<Rightarrow> n < int bound | None \<Rightarrow> False))"

definition isClockTime :: "string \<Rightarrow> bool" where
  "isClockTime t =
     (case splitOn CHR '':'' t of
        [h, m] \<Rightarrow> twoDigits h 24 \<and> twoDigits m 60
      | [h, m, s] \<Rightarrow> twoDigits h 24 \<and> twoDigits m 60 \<and> twoDigits s 60
      | _ \<Rightarrow> False)"

text \<open>
  A \<open>Date\<close> holds a time value: the milliseconds since the epoch, in UTC. Its local
  getters read the local time value of it, which is the time value plus the offset of
  the local clock in force at that instant. Among local time values every day has
  \<open>msPerDay\<close> milliseconds. \<open>getHours\<close> and \<open>getMinutes\<close> are given here on the
  local time value.
\<close>

type_synonym date = int

definition msPerDay :: int where "msPerDay = 86400000"

definition getHours :: "date \<Rightarrow> int" where
  "getHours d = (d mod msPerDay) div 3600000"

definition getMinutes :: "date \<Rightarrow> int" where
  "getMinutes d = (d mod 3600000) div 60000"

text \<open>
  The local time zone, as the two conversions of the language: \<open>LocalTime\<close> takes a
  time value to its local time value, \<open>UTC\<close> takes a local time value back to a time
  value. Where the local clock changes (daylight saving), the offset between the two
  changes, and a local day is shorter or longer than \<open>msPerDay\<close> in time values.
\<close>

record timezone =
  LocalTime :: "int \<Rightarrow> int"
  UTC :: "int \<Rightarrow> int"

text \<open>
  \<open>d.setHours(h, m, s)\<close> on a time value \<open>d\<close>: within the local day of \<open>d\<close> the
  hours, minutes and seconds are replaced and the milliseconds of \<open>d\<close> are kept (the
  fourth argument is not given); the local time value made so is converted back.
\<close>

definition setHours :: "timezone \<Rightarrow> int \<Rightarrow> int \<Rightarrow> int \<Rightarrow> int \<Rightarrow> int" where
  "setHours z d h m s =
     (let t = LocalTime z d
      in UTC z ((t - t mod msPerDay) + h * 3600000 + m * 60000 + s * 1000 + t mod 1000))"

text \<open>
  \<open>d.setDate(d.getDate() + 1)\<close> on a time value \<open>d\<close>: the same local time of day on
  the next local day, converted back.
\<close>

definition addOneDay :: "timezone \<Rightarrow> int \<Rightarrow> int" where
  "addOneDay z d = (let t = LocalTime z d in UTC z (t + msPerDay))"

text \<open>A zone whose clock is always \<open>offset\<close> milliseconds ahead of UTC.\<close>

definition fixedZone :: "int \<Rightarrow> timezone" where
  "fixedZone offset = \<lparr> LocalTime = (\<lambda>t. t + offset), UTC = (\<lambda>t. t - offset) \<rparr>"

text \<open>
  No clock change around \<open>now\<close>: from the local midnight before \<open>now\<close> to the end of
  the next local day, the local clock keeps the offset it has at \<open>now\<close>.
\<close>

definition steadyClock :: "timezone \<Rightarrow> int \<Rightarrow> bool" where
  "steadyClock z now =
     (let t = LocalTime z now; midnight = t - t mod msPerDay; offset = t - now
      in \<forall>l. midnight \<le> l \<and> l < midnight + 2 * msPerDay \<longrightarrow>
               UTC z l = l - offset \<and> LocalTime z (l - offset) = l)"

text \<open>
  The clock of Europe/London around Sunday 31 March 2024: on UTC until 01:00 UTC of that
  day (time value 1711846800000), one hour ahead from then on. The local times from
  01:00 to 02:00 of that day do not exist; the language reads them with the offset
  before the change.
\<close>

definition londonMarch2024 :: timezone where
  "londonMarch2024 =
     \<lparr> LocalTime = (\<lambda>t. if t < 1711846800000 then t else t + 3600000),
       UTC = (\<lambda>t. if t < 1711850400000 then t else t - 3600000) \<rparr>"

text \<open>The remainder operator \<open>a % b\<close> on integers: the sign of the dividend.\<close>

definition jsRem :: "int \<Rightarrow> int \<Rightarrow> int" where
  "jsRem a b = sgn a * (\<bar>a\<bar> mod \<bar>b\<bar>)"

text \<open>An integer in a template literal.\<close>

fun showNat :: "nat \<Rightarrow> string" where
  "showNat n =
     (if n < 10 then [''0123456789'' ! n]
      else showNat (n div 10) @ [''0123456789'' ! (n mod 10)])"

declare showNat.simps [simp del]

definition showInt :: "int \<Rightarrow> string" where
  "showInt i = (if i < 0 then CHR ''-'' # showNat (nat (- i)) else showNat (nat i))"

section \<open>TimeCard: schedule and countdown\<close>

record event_row =
  security_call_time :: "string option"
  main_act_start_time :: "string option"
  show_down_time :: "string option"
  show_stop_meeting_time :: "string option"
  doors_open_time :: "string option"
  curfew_time :: "string option"
  event_name :: string

record EventTiming =
  title :: string
  time :: string
  isNext :: bool

text \<open>Truthiness of a \<open>string | null\<close>: set and not empty.\<close>

definition truthyStr :: "string option \<Rightarrow> bool" where
  "truthyStr v = (case v of None \<Rightarrow> False | Some s \<Rightarrow> s \<noteq> [])"

text \<open>The six schedule fields in the order of the array literal, before the filter.\<close>

definition scheduleFields :: "event_row \<Rightarrow> (string \<times> string option) list" where
  "scheduleFields event =
     [ (''Security Call'', security_call_time event),
       (''Doors Open'', doors_open_time event),
       (event_name event, main_act_start_time event),
       (''Show Stop Meeting'', show_stop_meeting_time event),
       (''Show Down'', show_down_time event),
       (''Curfew'', curfew_time event) ]"

text \<open>
  \<open>.filter(timing => timing.time)\<close>: only timings that have been set. What is left
  has a string for its time.
\<close>

definition timings :: "event_row \<Rightarrow> (string \<times> string) list" where
  "timings event =
     map (\<lambda>(ttl, t). (ttl, (case t of None \<Rightarrow> [] | Some s \<Rightarrow> s)))
       (filter (\<lambda>(ttl, t). truthyStr t) (scheduleFields event))"

definition timingsWithMinutes :: "event_row \<Rightarrow> (string \<times> string \<times> int option) list" where
  "timingsWithMinutes event = map (\<lambda>(ttl, t). (ttl, t, timeInMinutes t)) (timings event)"

text \<open>\<open>currentHours * 60 + currentMinutes\<close> of \<open>now\<close>.\<close>

definition currentTimeNumber :: "date \<Rightarrow> int" where
  "currentTimeNumber now = getHours now * 60 + getMinutes now"

text \<open>\<open>t.minutesSinceMidnight > currentTimeNumber\<close>; \<open>NaN > n\<close> is false.\<close>

definition isFuture :: "int \<Rightarrow> (string \<times> string \<times> int option) \<Rightarrow> bool" where
  "isFuture current t =
     (case snd (snd t) of None \<Rightarrow> False | Some m \<Rightarrow> m > current)"

text \<open>
  The key the comparator \<open>a.minutesSinceMidnight - b.minutesSinceMidnight\<close> orders by.
  No \<open>NaN\<close> reaches the sort: the filter before it drops them.
\<close>

definition minutesKey :: "(string \<times> string \<times> int option) \<Rightarrow> int" where
  "minutesKey t = (case snd (snd t) of None \<Rightarrow> 0 | Some m \<Rightarrow> m)"

text \<open>\<open>Array.prototype.sort\<close> is stable; so is \<open>sort_key\<close>.\<close>

definition futureTimings :: "event_row \<Rightarrow> date \<Rightarrow> (string \<times> string \<times> int option) list" where
  "futureTimings event now =
     sort_key minutesKey
       (filter (isFuture (currentTimeNumber now)) (timingsWithMinutes event))"

definition nextThreeTimings :: "event_row \<Rightarrow> date \<Rightarrow> EventTiming list" where
  "nextThreeTimings event now =
     map (\<lambda>(index, timing).
            \<lparr> title = fst timing, time = fst (snd timing), isNext = (index = 0) \<rparr>)
         (List.enumerate 0 (take 3 (futureTimings event now)))"

text \<open>Minutes since midnight of an entry of the list, read from its \<open>time\<close>.\<close>

definition entryMinutes :: "EventTiming \<Rightarrow> int" where
  "entryMinutes e = (case timeInMinutes (time e) of None \<Rightarrow> 0 | Some m \<Rightarrow> m)"

record timecard =
  eventTimings :: "EventTiming list"
  nextEvent :: "EventTiming option"
  artistName :: string
  countdown :: string

text \<open>
  The continuation of \<open>fetchEventTimings\<close> after the read of the current event:
  \<open>event\<close> is the response's \<open>data\<close>, \<open>now\<close> is the local time value of
  \<open>new Date()\<close>, of which the code reads the hours and the minutes.
\<close>

definition fetchEventTimings :: "event_row option \<Rightarrow> date \<Rightarrow> timecard \<Rightarrow> timecard" where
  "fetchEventTimings event now s =
     (case event of
        None \<Rightarrow> s
      | Some ev \<Rightarrow>
          s\<lparr> artistName := event_name ev,
             eventTimings := nextThreeTimings ev now,
             nextEvent := (case nextThreeTimings ev now of [] \<Rightarrow> None | t # _ \<Rightarrow> Some t) \<rparr>)"

text \<open>
  \<open>calculateCountdown\<close>, in the time zone \<open>z\<close>, with \<open>now\<close> as the time value of
  \<open>new Date()\<close> and the \<open>time\<close> of the next entry, in two steps:
  \<open>countdownTarget\<close> is \<open>eventTime\<close> after the roll-over test, \<open>calculateCountdown\<close>
  the text made from it. A time that does not parse gives an invalid date (\<open>None\<close>),
  and every number printed is then \<open>NaN\<close>.
\<close>

definition countdownTarget :: "timezone \<Rightarrow> int \<Rightarrow> string \<Rightarrow> int option" where
  "countdownTarget z now t =
     (case hoursMinutes t of
        (Some hours, Some minutes) \<Rightarrow>
          (let eventTime = setHours z now hours minutes 0
           in Some (if eventTime < now then addOneDay z eventTime else eventTime))
      | _ \<Rightarrow> None)"

text \<open>
  The target as the specification words it, for comparison: today at the time of day
  \<open>h:m\<close>, or the same time tomorrow when that instant is before \<open>now\<close>.
\<close>

definition specCountdownTarget :: "timezone \<Rightarrow> int \<Rightarrow> int \<Rightarrow> int \<Rightarrow> int" where
  "specCountdownTarget z now h m =
     (let t = LocalTime z now;
          today = (t - t mod msPerDay) + h * 3600000 + m * 60000
      in if UTC z today < now then UTC z (today + msPerDay) else UTC z today)"

text \<open>A number of seconds as whole hours, minutes and seconds, for comparison.\<close>

definition durationText :: "int \<Rightarrow> string" where
  "durationText r =
     showInt (r div 3600) @ ''h '' @ showInt (r mod 3600 div 60) @ ''m ''
       @ showInt (r mod 60) @ ''s''"

definition calculateCountdown :: "timezone \<Rightarrow> int \<Rightarrow> string \<Rightarrow> string" where
  "calculateCountdown z now t =
     (case countdownTarget z now t of
        None \<Rightarrow> ''NaNh NaNm NaNs''
      | Some eventTime \<Rightarrow>
          (let diff = eventTime - now;
               hours_remaining = diff div (1000 * 60 * 60);
               minutes_remaining = jsRem diff (1000 * 60 * 60) div (1000 * 60);
               seconds_remaining = jsRem diff (1000 * 60) div 1000
           in showInt hours_remaining @ ''h '' @ showInt minutes_remaining @ ''m ''
              @ showInt seconds_remaining @ ''s''))"

section \<open>Push channels\<close>

text \<open>
  A channel object of the realtime client: its identity and the row filter it was
  created with (the event id; empty for a table-wide channel).
\<close>

datatype channel = Channel nat string

text \<open>The calls a view makes on the realtime client, in the order it makes them.\<close>

datatype channel_call = Subscribe channel | Unsubscribe channel

text \<open>
  What a view keeps across renders for its channel: the \<open>subscriptionRef\<close>, the calls
  made so far, the console, and the identity the next channel object gets.
\<close>

record subscription =
  subscriptionRef :: "channel option"
  realtime :: "channel_call list"
  console :: "console_line list"
  nextChannel :: nat

text \<open>The channels open after a sequence of calls.\<close>

fun applyCall :: "channel list \<Rightarrow> channel_call \<Rightarrow> channel list" where
  "applyCall chs (Subscribe c) = chs @ [c]"
| "applyCall chs (Unsubscribe c) = removeAll c chs"

definition liveChannels :: "channel_call list \<Rightarrow> channel list" where
  "liveChannels calls = foldl applyCall [] calls"

text \<open>
  The body shared by the two \<open>cleanup\<close> functions, which differ in the line they log.
\<close>

definition unsubscribeRef :: "string \<Rightarrow> 'a subscription_scheme \<Rightarrow> 'a subscription_scheme" where
  "unsubscribeRef message s =
     (case subscriptionRef s of
        None \<Rightarrow> s
      | Some ch \<Rightarrow>
          s\<lparr> console := console s @ [ConsoleLog message],
             realtime := realtime s @ [Unsubscribe ch],
             subscriptionRef := None \<rparr>)"

text \<open>\<open>subscriptionRef.current = supabase.channel(...).on(...).subscribe()\<close>.\<close>

definition subscribeRef :: "string \<Rightarrow> 'a subscription_scheme \<Rightarrow> 'a subscription_scheme" where
  "subscribeRef rowFilter s =
     (let ch = Channel (nextChannel s) rowFilter
      in s\<lparr> subscriptionRef := Some ch,
            realtime := realtime s @ [Subscribe ch],
            nextChannel := Suc (nextChannel s) \<rparr>)"

definition logLine :: "string \<Rightarrow> 'a subscription_scheme \<Rightarrow> 'a subscription_scheme" where
  "logLine message s = s\<lparr> console := console s @ [ConsoleLog message] \<rparr>"

definition logError :: "string \<Rightarrow> 'a subscription_scheme \<Rightarrow> 'a subscription_scheme" where
  "logError message s = s\<lparr> console := console s @ [ConsoleError message] \<rparr>"

section \<open>VenueOccupancy\<close>

record occupancy = subscription +
  currentCount :: int
  loading :: bool
  venueCapacity :: int

definition initialOccupancy :: occupancy where
  "initialOccupancy =
     \<lparr> subscriptionRef = None, realtime = [], console = [], nextChannel = 0,
       currentCount = 0, loading = True, venueCapacity = 3500 \<rparr>"

definition cleanup :: "occupancy \<Rightarrow> occupancy" where
  "cleanup s = unsubscribeRef ''Cleaning up subscription'' s"

text \<open>
  The rows the two reads of \<open>fetchData\<close> select. The \<open>venue_capacity\<close> of the row
  of the events table is untyped. The fetch reads it in two ways only, as the condition
  of an \<open>if\<close> and as the argument of \<open>parseInt\<close>, so a value of the field is given
  here by these two readings: whether it is truthy, and the integer that \<open>parseInt\<close>
  makes of it. The number 5000 is truthy with \<open>parseInt\<close> 5000. The number 0,
  \<open>null\<close>, an absent field and the empty text are not truthy. The text \<open>'0'\<close> and
  the number 0.5 are truthy with \<open>parseInt\<close> 0, and the number 1e21 is truthy with
  \<open>parseInt\<close> 1, as \<open>parseInt\<close> reads the text of its argument. A truthy value of
  which \<open>parseInt\<close> makes \<open>NaN\<close>, such as a text that does not start with a
  number, is not a value of the field here: the capacity state holds an integer.
\<close>

record field_value =
  isTruthy :: bool
  parseInt :: int

record capacity_row =
  venue_capacity :: field_value

record attendance_row =
  count :: int

text \<open>
  \<open>if (eventData?.venue_capacity) setVenueCapacity(parseInt(eventData.venue_capacity))\<close>;
  without a row, \<open>eventData?.venue_capacity\<close> is \<open>undefined\<close>.
\<close>

definition storeCapacity :: "capacity_row option \<Rightarrow> occupancy \<Rightarrow> occupancy" where
  "storeCapacity eventData s =
     (case eventData of
        None \<Rightarrow> s
      | Some row \<Rightarrow>
          if isTruthy (venue_capacity row)
          then s\<lparr> venueCapacity := parseInt (venue_capacity row) \<rparr>
          else s)"

text \<open>
  \<open>if (attendanceData) setCurrentCount(attendanceData.count) else setCurrentCount(0)\<close>.
\<close>

definition storeCount :: "attendance_row option \<Rightarrow> occupancy \<Rightarrow> occupancy" where
  "storeCount attendanceData s =
     (case attendanceData of
        Some row \<Rightarrow> s\<lparr> currentCount := count row \<rparr>
      | None \<Rightarrow> s\<lparr> currentCount := 0 \<rparr>)"

text \<open>
  The \<open>try\<close> block of \<open>fetchData\<close>, given what the two awaited reads settle to. The
  result is the exception the block throws, if any, and the state at that point. The
  second read is issued, and its result looked at, only when the first did not throw.
\<close>

definition fetchData_try ::
  "capacity_row awaited \<Rightarrow> attendance_row awaited \<Rightarrow> occupancy \<Rightarrow> string option \<times> occupancy" where
  "fetchData_try eventRead attendanceRead s =
     (case eventRead of
        Rejected e \<Rightarrow> (Some e, s)
      | Resolved eventData eventError \<Rightarrow>
          (case eventError of
             Some e \<Rightarrow> (Some e, s)
           | None \<Rightarrow>
               (let s1 = storeCapacity eventData s
                in (case attendanceRead of
                      Rejected e \<Rightarrow> (Some e, s1)
                    | Resolved attendanceData attendanceError \<Rightarrow>
                        if (case attendanceError of
                              None \<Rightarrow> False
                            | Some code \<Rightarrow> code \<noteq> ''PGRST116'')
                        then (attendanceError, s1)
                        else (None, storeCount attendanceData s1)))))"

text \<open>\<open>fetchData\<close> up to its first \<open>await\<close>.\<close>

definition fetchData_start :: "occupancy \<Rightarrow> occupancy" where
  "fetchData_start s = s\<lparr> loading := True \<rparr>"

text \<open>The rest of \<open>fetchData\<close>: the \<open>try\<close> block, its \<open>catch\<close> and its \<open>finally\<close>.\<close>

definition fetchData :: "capacity_row awaited \<Rightarrow> attendance_row awaited \<Rightarrow> occupancy \<Rightarrow> occupancy" where
  "fetchData eventRead attendanceRead s =
     (let (thrown, s1) = fetchData_try eventRead attendanceRead s;
          s2 = (case thrown of
                  None \<Rightarrow> s1
                | Some err \<Rightarrow>
                    (logError ''Error fetching occupancy data:'' s1)
                      \<lparr> currentCount := 0, venueCapacity := 3500 \<rparr>)
      in s2\<lparr> loading := False \<rparr>)"

text \<open>The handlers of the \<open>INSERT\<close> and \<open>UPDATE\<close> notifications.\<close>

definition onInsert :: "jsval \<Rightarrow> occupancy \<Rightarrow> occupancy" where
  "onInsert payload s =
     (let s0 = logLine ''Attendance INSERT received:'' s;
          newRecord = getProp payload ''new''
      in if truthy newRecord \<and> typeof (getProp newRecord ''count'') = ''number''
         then (case getProp newRecord ''count'' of JNum n \<Rightarrow> s0\<lparr> currentCount := n \<rparr> | _ \<Rightarrow> s0)
         else s0)"

definition onUpdate :: "jsval \<Rightarrow> occupancy \<Rightarrow> occupancy" where
  "onUpdate payload s =
     (let s0 = logLine ''Attendance UPDATE received:'' s;
          updatedRecord = getProp payload ''new''
      in if truthy updatedRecord \<and> typeof (getProp updatedRecord ''count'') = ''number''
         then (case getProp updatedRecord ''count'' of JNum n \<Rightarrow> s0\<lparr> currentCount := n \<rparr> | _ \<Rightarrow> s0)
         else s0)"

text \<open>
  The body of the effect that depends on \<open>currentEventId\<close>, up to the first \<open>await\<close>
  of the \<open>fetchData\<close> call it makes.
\<close>

definition occupancyEffect :: "string option \<Rightarrow> occupancy \<Rightarrow> occupancy" where
  "occupancyEffect currentEventId s =
     (case currentEventId of
        None \<Rightarrow> cleanup (logLine ''No currentEventId provided'' s)
      | Some eventId \<Rightarrow>
          if eventId = [] then cleanup (logLine ''No currentEventId provided'' s)
          else fetchData_start
                 (subscribeRef eventId
                   (cleanup (logLine ''Setting up venue occupancy for event:'' s))))"

text \<open>
  What can happen to a mounted instance: the effect runs (with the current key), the
  cleanup the effect returned runs, a notification arrives, a \<open>fetchData\<close> call started
  by an earlier effect settles. A notification is handled once by every open channel of
  the instance. The framework runs the returned cleanup before it runs the effect again;
  the events below are allowed in any order.
\<close>

datatype occupancy_event =
    RunEffect "string option"
  | RunCleanup
  | InsertNotification jsval
  | UpdateNotification jsval
  | FetchSettled "capacity_row awaited" "attendance_row awaited"

fun occupancyStep :: "occupancy \<Rightarrow> occupancy_event \<Rightarrow> occupancy" where
  "occupancyStep s (RunEffect k) = occupancyEffect k s"
| "occupancyStep s RunCleanup = cleanup s"
| "occupancyStep s (InsertNotification p) =
     ((onInsert p) ^^ length (liveChannels (realtime s))) s"
| "occupancyStep s (UpdateNotification p) =
     ((onUpdate p) ^^ length (liveChannels (realtime s))) s"
| "occupancyStep s (FetchSettled e a) = fetchData e a s"

definition occupancyRun :: "occupancy_event list \<Rightarrow> occupancy" where
  "occupancyRun events = foldl occupancyStep initialOccupancy events"

subsection \<open>Rendering the occupancy card\<close>

text \<open>
  The numbers the render computes. Counts and capacities are integers. A quotient is
  the exact rational where the divisor is not 0, and what IEEE division gives where it
  is 0: \<open>NaN\<close> for \<open>0 / 0\<close>, an infinity otherwise. The code computes in
  double precision; the exact value stands for it here, so the properties of the
  percentage below are stated up to one half and say nothing about the side a tie
  falls on.
\<close>

datatype jsnum = Fin real | NaN | PosInfinity | NegInfinity

definition jsDivide :: "int \<Rightarrow> int \<Rightarrow> jsnum" where
  "jsDivide a b =
     (if b \<noteq> 0 then Fin (real_of_int a / real_of_int b)
      else if a = 0 then NaN
      else if a > 0 then PosInfinity else NegInfinity)"

text \<open>Multiplication by a positive finite constant.\<close>

fun jsTimes :: "jsnum \<Rightarrow> real \<Rightarrow> jsnum" where
  "jsTimes (Fin x) k = Fin (x * k)"
| "jsTimes n k = n"

text \<open>\<open>Math.round\<close>: the nearest integer, a tie going up.\<close>

fun Math_round :: "jsnum \<Rightarrow> jsnum" where
  "Math_round (Fin x) = Fin (of_int \<lfloor>x + 1 / 2\<rfloor>)"
| "Math_round n = n"

text \<open>\<open>Math.min(n, k)\<close> for a finite \<open>k\<close>.\<close>

fun Math_min :: "jsnum \<Rightarrow> real \<Rightarrow> jsnum" where
  "Math_min (Fin x) k = Fin (min x k)"
| "Math_min NaN k = NaN"
| "Math_min PosInfinity k = Fin k"
| "Math_min NegInfinity k = NegInfinity"

text \<open>The status colour, used for the percentage text and for the bar.\<close>

definition statusColor :: "int \<Rightarrow> int \<Rightarrow> string" where
  "statusColor cnt cap =
     (if cnt > cap then ''#ef4444''
      else if real_of_int cnt \<ge> real_of_int cap * (9 / 10) then ''#f97316''
      else ''#2A3990'')"

text \<open>The block rendered under \<open>venueCapacity > 0 &&\<close>.\<close>

record capacity_bar =
  percentText :: jsnum
  percentColor :: string
  overCapacity :: bool
  barWidth :: jsnum
  barColor :: string

datatype occupancy_view =
    LoadingSkeleton
  | NoEventSelected
  | OccupancyCard int int "capacity_bar option"

definition renderBar :: "int \<Rightarrow> int \<Rightarrow> capacity_bar" where
  "renderBar cnt cap =
     \<lparr> percentText = Math_round (jsTimes (jsDivide cnt cap) 100),
       percentColor = statusColor cnt cap,
       overCapacity = (cnt > cap),
       barWidth = Math_min (Math_round (jsTimes (jsDivide cnt cap) 100)) 100,
       barColor = statusColor cnt cap \<rparr>"

definition render :: "string option \<Rightarrow> occupancy \<Rightarrow> occupancy_view" where
  "render currentEventId s =
     (if loading s then LoadingSkeleton
      else if \<not> truthyStr currentEventId then NoEventSelected
      else OccupancyCard (currentCount s) (venueCapacity s)
             (if venueCapacity s > 0
              then Some (renderBar (currentCount s) (venueCapacity s))
              else None))"

section \<open>Dashboard\<close>

record dashboard = subscription +
  incidentStats :: incident_stats
  hasCurrentEvent :: bool
  currentEventId :: "string option"

definition initialDashboard :: dashboard where
  "initialDashboard =
     \<lparr> subscriptionRef = None, realtime = [], console = [], nextChannel = 0,
       incidentStats = initialIncidentStats, hasCurrentEvent = False,
       currentEventId = None \<rparr>"

record id_row =
  row_id :: string

definition dashboardCleanup :: "dashboard \<Rightarrow> dashboard" where
  "dashboardCleanup s = unsubscribeRef ''Cleaning up dashboard subscription'' s"

text \<open>\<open>checkCurrentEvent\<close> after its read settles.\<close>

definition checkCurrentEvent :: "id_row awaited \<Rightarrow> dashboard \<Rightarrow> dashboard" where
  "checkCurrentEvent eventRead s =
     (case eventRead of
        Rejected e \<Rightarrow> logError ''Error checking current event:'' s
      | Resolved event eventError \<Rightarrow>
          s\<lparr> currentEventId :=
               (case event of
                  None \<Rightarrow> None
                | Some row \<Rightarrow> if row_id row \<noteq> [] then Some (row_id row) else None),
             hasCurrentEvent := (event \<noteq> None) \<rparr>)"

text \<open>
  The \<open>try\<close> block of \<open>fetchIncidentStats\<close>, given what its two reads settle to: the
  exception thrown, if any, and the state at that point. Only \<open>data\<close> of a response is
  read; its \<open>error\<close> is not looked at.
\<close>

definition fetchIncidentStats_try ::
  "id_row awaited \<Rightarrow> incident list awaited \<Rightarrow> dashboard \<Rightarrow> string option \<times> dashboard" where
  "fetchIncidentStats_try currentEventRead incidentsRead s =
     (case currentEventRead of
        Rejected e \<Rightarrow> (Some e, s)
      | Resolved currentEvent eventError \<Rightarrow>
          (case currentEvent of
             None \<Rightarrow> (None, s)
           | Some row \<Rightarrow>
               (case incidentsRead of
                  Rejected e \<Rightarrow> (Some e, s)
                | Resolved incidents incidentsError \<Rightarrow>
                    (case incidents of
                       None \<Rightarrow> (None, s)
                     | Some rows \<Rightarrow> (None, s\<lparr> incidentStats := computeIncidentStats rows \<rparr>)))))"

definition fetchIncidentStats ::
  "id_row awaited \<Rightarrow> incident list awaited \<Rightarrow> dashboard \<Rightarrow> dashboard" where
  "fetchIncidentStats currentEventRead incidentsRead s =
     (let (thrown, s1) = fetchIncidentStats_try currentEventRead incidentsRead s
      in (case thrown of
            None \<Rightarrow> s1
          | Some err \<Rightarrow> logError ''Error fetching incident stats:'' s1))"

text \<open>
  The body of the mount effect. Its calls of \<open>checkCurrentEvent\<close> and
  \<open>fetchIncidentStats\<close> reach their first \<open>await\<close> without touching the state.
\<close>

definition dashboardEffect :: "dashboard \<Rightarrow> dashboard" where
  "dashboardEffect s = subscribeRef [] (dashboardCleanup s)"

text \<open>
  What can happen to a mounted Dashboard. A notification on the incident table only
  starts another \<open>fetchIncidentStats\<close>, whose settling is an event of its own.
\<close>

datatype dashboard_event =
    DashboardEffect
  | DashboardCleanup
  | IncidentNotification
  | CheckSettled "id_row awaited"
  | StatsSettled "id_row awaited" "incident list awaited"

fun dashboardStep :: "dashboard \<Rightarrow> dashboard_event \<Rightarrow> dashboard" where
  "dashboardStep s DashboardEffect = dashboardEffect s"
| "dashboardStep s DashboardCleanup = dashboardCleanup s"
| "dashboardStep s IncidentNotification = s"
| "dashboardStep s (CheckSettled e) = checkCurrentEvent e s"
| "dashboardStep s (StatsSettled e i) = fetchIncidentStats e i s"

definition dashboardRun :: "dashboard_event list \<Rightarrow> dashboard" where
  "dashboardRun events = foldl dashboardStep initialDashboard events"

section \<open>The channel slot\<close>

text \<open>
  The invariant of a view's channel handling: the channels open after the calls made so
  far are exactly the one the \<open>subscriptionRef\<close> holds, if any, and at no point of
  the call history were two channels open.
\<close>

definition slotAgrees :: "'a subscription_scheme \<Rightarrow> bool" where
  "slotAgrees s =
     (liveChannels (realtime s) = (case subscriptionRef s of None \<Rightarrow> [] | Some c \<Rightarrow> [c])
      \<and> (\<forall>p. prefix p (realtime s) \<longrightarrow> length (liveChannels p) \<le> 1))"

section \<open>Read failures\<close>

text \<open>
  The settled reads on which \<open>fetchData\<close> takes its \<open>catch\<close> branch: a rejected
  read, an event read that carries an error, or an attendance read that carries an error
  other than "no rows" (\<open>PGRST116\<close>). The attendance read is only made when the event
  read went through.
\<close>

definition occupancyReadFails :: "capacity_row awaited \<Rightarrow> attendance_row awaited \<Rightarrow> bool" where
  "occupancyReadFails eventRead attendanceRead =
     (case eventRead of
        Rejected e \<Rightarrow> True
      | Resolved eventData (Some e) \<Rightarrow> True
      | Resolved eventData None \<Rightarrow>
          (case attendanceRead of
             Rejected e \<Rightarrow> True
           | Resolved attendanceData None \<Rightarrow> False
           | Resolved attendanceData (Some code) \<Rightarrow> code \<noteq> ''PGRST116''))"

section \<open>Properties of the incident statistics\<close>

lemma stats_total: "total' (computeIncidentStats xs) = length xs"
  by (simp add: computeIncidentStats_def)

lemma stats_high:
  "high (computeIncidentStats xs) =
     card {k. k < length xs \<and> incident_type (xs ! k) \<in>
            {''Ejection'', ''Code Green'', ''Code Black'', ''Code Pink''}}"
  unfolding computeIncidentStats_def Let_def
  by (simp add: length_filter_conv_card)

lemma stats_logged:
  "logged (computeIncidentStats xs) =
     card {k. k < length xs \<and> incident_type (xs ! k) = ''Sit Rep''}"
  unfolding computeIncidentStats_def Let_def
  by (simp add: length_filter_conv_card)

lemma stats_open:
  "open' (computeIncidentStats xs) =
     card {k. k < length xs \<and> incident_type (xs ! k) \<noteq> ''Sit Rep'' \<and> \<not> is_closed (xs ! k)}"
  unfolding computeIncidentStats_def Let_def
  by (simp add: length_filter_conv_card)

lemma stats_inProgress:
  "inProgress (computeIncidentStats xs) =
     card {k. k < length xs \<and> incident_type (xs ! k) \<noteq> ''Sit Rep'' \<and> \<not> is_closed (xs ! k)
            \<and> truthy (action_taken (xs ! k))}"
  unfolding computeIncidentStats_def Let_def
  by (simp add: length_filter_conv_card)

lemma stats_closed:
  "closed' (computeIncidentStats xs) =
     card {k. k < length xs \<and> incident_type (xs ! k) \<noteq> ''Sit Rep'' \<and> is_closed (xs ! k)}"
  unfolding computeIncidentStats_def Let_def
  by (simp add: length_filter_conv_card)

lemma stats_refusals:
  "refusals (computeIncidentStats xs) =
     card {k. k < length xs \<and> incident_type (xs ! k) = ''Refusal''}"
  unfolding computeIncidentStats_def Let_def
  by (simp add: length_filter_conv_card)

lemma stats_ejections:
  "ejections (computeIncidentStats xs) =
     card {k. k < length xs \<and> incident_type (xs ! k) = ''Ejection''}"
  unfolding computeIncidentStats_def Let_def
  by (simp add: length_filter_conv_card)

text \<open>Sit Reps are kept out of the open and closed counts, which split the rest.\<close>

lemma stats_partition:
  "open' (computeIncidentStats xs) + closed' (computeIncidentStats xs)
     + logged (computeIncidentStats xs) = total' (computeIncidentStats xs)"
proof -
  have a: "length (filter (\<lambda>i. \<not> is_closed i) ys) + length (filter is_closed ys) = length ys"
    for ys :: "incident list"
    using sum_length_filter_compl [of is_closed ys] by simp
  have b: "length (filter (\<lambda>i. incident_type i \<noteq> ''Sit Rep'') xs)
             + length (filter (\<lambda>i. incident_type i = ''Sit Rep'') xs) = length xs"
    using sum_length_filter_compl [of "\<lambda>i. incident_type i = ''Sit Rep''" xs] by simp
  show ?thesis
    unfolding computeIncidentStats_def Let_def
    using a [of "filter (\<lambda>i. incident_type i \<noteq> ''Sit Rep'') xs"] b by simp
qed

lemma stats_example:
  "computeIncidentStats
     [ \<lparr> incident_type = ''Sit Rep'', is_closed = c, action_taken = a1 \<rparr>,
       \<lparr> incident_type = ''Ejection'', is_closed = False, action_taken = a2 \<rparr>,
       \<lparr> incident_type = ''Refusal'', is_closed = True, action_taken = a3 \<rparr> ]
   = \<lparr> total' = 3, high = 1, open' = 1, inProgress = (if truthy a2 then 1 else 0),
       closed' = 1, logged = 1, avgResolution = 0, refusals = 1, ejections = 1,
       medical = 0 \<rparr>"
  unfolding computeIncidentStats_def Let_def
  by simp

lemma stats_stored:
  "incidentStats (fetchIncidentStats (Resolved (Some ev) e1) (Resolved (Some xs) e2) s)
     = computeIncidentStats xs"
  by (simp add: fetchIncidentStats_def fetchIncidentStats_try_def)

text \<open>
  C4. The aggregator counts, over the positions of the incident list: every record in
  the total; the records of type Ejection, Code Green, Code Black or Code Pink as high
  priority; the Sit Reps as logged; the records that are not Sit Reps and not closed as
  open; those of them with an action taken as in progress; the records that are not Sit
  Reps and closed as closed; Refusals and Ejections by their exact type. These are the
  statistics \<open>fetchIncidentStats\<close> stores when both reads return data. For one Sit Rep,
  one open Ejection and one closed Refusal the counts are total 3, high 1, open 1,
  closed 1, logged 1, refusals 1, ejections 1.
\<close>

theorem incident_stats_buckets:
  "total' (computeIncidentStats xs) = length xs
   \<and> high (computeIncidentStats xs) =
       card {k. k < length xs \<and> incident_type (xs ! k) \<in>
              {''Ejection'', ''Code Green'', ''Code Black'', ''Code Pink''}}
   \<and> logged (computeIncidentStats xs) =
       card {k. k < length xs \<and> incident_type (xs ! k) = ''Sit Rep''}
   \<and> open' (computeIncidentStats xs) =
       card {k. k < length xs \<and> incident_type (xs ! k) \<noteq> ''Sit Rep''
              \<and> \<not> is_closed (xs ! k)}
   \<and> inProgress (computeIncidentStats xs) =
       card {k. k < length xs \<and> incident_type (xs ! k) \<noteq> ''Sit Rep''
              \<and> \<not> is_closed (xs ! k) \<and> truthy (action_taken (xs ! k))}
   \<and> closed' (computeIncidentStats xs) =
       card {k. k < length xs \<and> incident_type (xs ! k) \<noteq> ''Sit Rep''
              \<and> is_closed (xs ! k)}
   \<and> refusals (computeIncidentStats xs) =
       card {k. k < length xs \<and> incident_type (xs ! k) = ''Refusal''}
   \<and> ejections (computeIncidentStats xs) =
       card {k. k < length xs \<and> incident_type (xs ! k) = ''Ejection''}
   \<and> incidentStats (fetchIncidentStats (Resolved (Some ev) e1) (Resolved (Some xs) e2) s)
       = computeIncidentStats xs
   \<and> (let example = computeIncidentStats
           [ \<lparr> incident_type = ''Sit Rep'', is_closed = c, action_taken = a1 \<rparr>,
             \<lparr> incident_type = ''Ejection'', is_closed = False, action_taken = a2 \<rparr>,
             \<lparr> incident_type = ''Refusal'', is_closed = True, action_taken = a3 \<rparr> ]
       in total' example = 3 \<and> high example = 1 \<and> open' example = 1
          \<and> closed' example = 1 \<and> logged example = 1 \<and> refusals example = 1
          \<and> ejections example = 1)"
  using stats_total [of xs] stats_high [of xs] stats_logged [of xs] stats_open [of xs]
    stats_inProgress [of xs] stats_closed [of xs] stats_refusals [of xs]
    stats_ejections [of xs] stats_stored [of ev e1 xs e2 s] stats_example [of c a1 a2 a3]
  by (simp add: Let_def)

section \<open>Properties of the occupancy fetch\<close>

lemma storeCapacity_eq:
  "storeCapacity d s =
     s\<lparr> venueCapacity :=
          (case d of
             None \<Rightarrow> venueCapacity s
           | Some row \<Rightarrow>
               (if isTruthy (venue_capacity row)
                  then parseInt (venue_capacity row)
                  else venueCapacity s)) \<rparr>"
  by (simp add: storeCapacity_def split: option.splits)

lemma storeCount_eq:
  "storeCount a s = s\<lparr> currentCount := (case a of Some row \<Rightarrow> count row | None \<Rightarrow> 0) \<rparr>"
  by (simp add: storeCount_def split: option.splits)

lemma fetchData_try_fails:
  assumes "occupancyReadFails ev att"
  shows "\<exists>e v. fetchData_try ev att s = (Some e, s\<lparr> venueCapacity := v \<rparr>)"
proof (cases ev)
  case (Rejected x)
  then show ?thesis
    by (intro exI [of _ x] exI [of _ "venueCapacity s"]) (simp add: fetchData_try_def)
next
  case (Resolved d er)
  show ?thesis
  proof (cases er)
    case (Some x)
    with Resolved show ?thesis
      by (intro exI [of _ x] exI [of _ "venueCapacity s"]) (simp add: fetchData_try_def)
  next
    case None
    obtain v where v: "storeCapacity d s = s\<lparr> venueCapacity := v \<rparr>"
      using storeCapacity_eq by blast
    show ?thesis
    proof (cases att)
      case (Rejected x)
      then show ?thesis
        using Resolved None v
        by (intro exI [of _ x] exI [of _ v]) (simp add: fetchData_try_def)
    next
      case att: (Resolved a aer)
      with assms Resolved None obtain code where "aer = Some code" "code \<noteq> ''PGRST116''"
        by (cases aer) (simp_all add: occupancyReadFails_def)
      then show ?thesis
        using Resolved None att v
        by (intro exI [of _ code] exI [of _ v]) (simp add: fetchData_try_def)
    qed
  qed
qed

lemma fetchData_try_succeeds:
  assumes "\<not> occupancyReadFails (Resolved d e) att"
  shows "fetchData_try (Resolved d e) att s = (None, storeCount (data att) (storeCapacity d s))"
proof -
  from assms have e: "e = None"
    by (cases e) (simp_all add: occupancyReadFails_def)
  from assms e obtain a aer where att: "att = Resolved a aer"
    by (cases att) (simp_all add: occupancyReadFails_def)
  from assms e att have "aer = None \<or> aer = Some ''PGRST116''"
    by (cases aer) (simp_all add: occupancyReadFails_def)
  then show ?thesis
    using e att by (auto simp add: fetchData_try_def)
qed

lemma fetchData_try_throws:
  "(fst (fetchData_try ev att s) \<noteq> None) = occupancyReadFails ev att"
proof (cases "occupancyReadFails ev att")
  case True
  with fetchData_try_fails [OF True, of s] show ?thesis by auto
next
  case False
  then obtain d e where "ev = Resolved d e"
    by (cases ev) (simp_all add: occupancyReadFails_def)
  with False fetchData_try_succeeds [of d e att s] show ?thesis by simp
qed

lemma fetchData_failure:
  assumes "occupancyReadFails ev att"
  shows "fetchData ev att s =
       s\<lparr> console := console s @ [ConsoleError ''Error fetching occupancy data:''],
          currentCount := 0, venueCapacity := 3500, loading := False \<rparr>"
proof -
  from fetchData_try_fails [OF assms, of s] obtain e v
    where "fetchData_try ev att s = (Some e, s\<lparr> venueCapacity := v \<rparr>)" by blast
  then show ?thesis by (simp add: fetchData_def logError_def)
qed

lemma fetchData_success:
  assumes "\<not> occupancyReadFails (Resolved d e) att"
  shows "fetchData (Resolved d e) att s =
       s\<lparr> venueCapacity :=
            (case d of
               None \<Rightarrow> venueCapacity s
             | Some row \<Rightarrow>
                 (if isTruthy (venue_capacity row)
                    then parseInt (venue_capacity row)
                    else venueCapacity s)),
          currentCount := (case data att of Some row \<Rightarrow> count row | None \<Rightarrow> 0),
          loading := False \<rparr>"
  unfolding fetchData_def fetchData_try_succeeds [OF assms]
  by (simp add: storeCount_eq) (simp add: storeCapacity_eq)

lemma fetchData_view:
  "currentCount (fetchData ev att s) =
     (if occupancyReadFails ev att then 0
      else (case data att of Some row \<Rightarrow> count row | None \<Rightarrow> 0))
   \<and> venueCapacity (fetchData ev att s) =
     (if occupancyReadFails ev att then 3500
      else (case data ev of
              None \<Rightarrow> venueCapacity s
            | Some row \<Rightarrow>
                (if isTruthy (venue_capacity row)
                   then parseInt (venue_capacity row)
                   else venueCapacity s)))
   \<and> loading (fetchData ev att s) = False
   \<and> realtime (fetchData ev att s) = realtime s
   \<and> subscriptionRef (fetchData ev att s) = subscriptionRef s"
proof (cases "occupancyReadFails ev att")
  case True
  then show ?thesis by (simp add: fetchData_failure)
next
  case False
  then obtain d e where ev: "ev = Resolved d e"
    by (cases ev) (simp_all add: occupancyReadFails_def)
  from False show ?thesis
    unfolding ev by (simp add: fetchData_success)
qed

text \<open>
  C10, as stated, fails in two ways. A fetch whose event row has the number 0 for its
  capacity and whose attendance read fails does not keep a stored capacity of 5000: the
  catch branch resets it to 3500. And a capacity of zero that the backend holds as the
  text \<open>'0'\<close> is truthy, so that a fetch with no failing read stores
  \<open>parseInt('0')\<close>, which is 0, over a stored capacity of 5000.
\<close>

theorem capacity_kept_counterexample:
  "venueCapacity
     (occupancyRun
        [ RunEffect (Some ''e1''),
          FetchSettled (Resolved (Some \<lparr> venue_capacity = \<lparr> isTruthy = True, parseInt = 5000 \<rparr> \<rparr>) None)
                       (Resolved (Some \<lparr> count = 10 \<rparr>) None),
          RunCleanup,
          RunEffect (Some ''e2'') ]) = 5000
   \<and> venueCapacity
     (occupancyRun
        [ RunEffect (Some ''e1''),
          FetchSettled (Resolved (Some \<lparr> venue_capacity = \<lparr> isTruthy = True, parseInt = 5000 \<rparr> \<rparr>) None)
                       (Resolved (Some \<lparr> count = 10 \<rparr>) None),
          RunCleanup,
          RunEffect (Some ''e2''),
          FetchSettled (Resolved (Some \<lparr> venue_capacity = \<lparr> isTruthy = False, parseInt = 0 \<rparr> \<rparr>) None)
                       (Resolved None (Some ''500'')) ]) = 3500
   \<and> venueCapacity
     (occupancyRun
        [ RunEffect (Some ''e1''),
          FetchSettled (Resolved (Some \<lparr> venue_capacity = \<lparr> isTruthy = True, parseInt = 5000 \<rparr> \<rparr>) None)
                       (Resolved (Some \<lparr> count = 10 \<rparr>) None),
          RunCleanup,
          RunEffect (Some ''e2''),
          FetchSettled (Resolved (Some \<lparr> venue_capacity = \<lparr> isTruthy = True, parseInt = 0 \<rparr> \<rparr>) None)
                       (Resolved (Some \<lparr> count = 10 \<rparr>) None) ]) = 0"
  by code_simp

text \<open>
  C10, amended. When no read fails and the fetched \<open>venue_capacity\<close> is truthy, the
  fetch stores \<open>parseInt\<close> of it as the capacity. When no read fails and the field is
  not truthy (absent, \<open>null\<close>, the number zero, the empty text) or there is no row,
  the capacity keeps its prior value. When a read fails, the capacity is reset to 3500
  whatever the field was. The initial capacity is 3500. A capacity held as the number
  zero is therefore never stored by the fetch, whereas a truthy field of which
  \<open>parseInt\<close> makes 0, such as the text \<open>'0'\<close>, is stored as the capacity 0
  when no read fails.
\<close>

theorem fetched_capacity:
  "(occupancyReadFails ev att \<longrightarrow> venueCapacity (fetchData ev att s) = 3500)
   \<and> (\<not> occupancyReadFails (Resolved d e) att \<longrightarrow>
        venueCapacity (fetchData (Resolved d e) att s) =
          (case d of
             None \<Rightarrow> venueCapacity s
           | Some row \<Rightarrow>
               if isTruthy (venue_capacity row)
               then parseInt (venue_capacity row)
               else venueCapacity s))
   \<and> venueCapacity initialOccupancy = 3500"
  by (simp add: fetchData_failure fetchData_success initialOccupancy_def)

theorem fetched_capacity_witness:
  "venueCapacity (fetchData (Rejected ''offline'') (Rejected ''offline'')
       (initialOccupancy\<lparr> venueCapacity := 5000 \<rparr>)) = 3500
   \<and> venueCapacity
       (fetchData (Resolved (Some \<lparr> venue_capacity = \<lparr> isTruthy = False, parseInt = 0 \<rparr> \<rparr>) None)
          (Resolved (Some \<lparr> count = 12 \<rparr>) None)
          (initialOccupancy\<lparr> venueCapacity := 5000 \<rparr>)) = 5000
   \<and> venueCapacity
       (fetchData (Resolved (Some \<lparr> venue_capacity = \<lparr> isTruthy = True, parseInt = 4200 \<rparr> \<rparr>) None)
          (Resolved (Some \<lparr> count = 12 \<rparr>) None)
          (initialOccupancy\<lparr> venueCapacity := 5000 \<rparr>)) = 4200
   \<and> venueCapacity
       (fetchData (Resolved (Some \<lparr> venue_capacity = \<lparr> isTruthy = True, parseInt = 0 \<rparr> \<rparr>) None)
          (Resolved (Some \<lparr> count = 12 \<rparr>) None)
          (initialOccupancy\<lparr> venueCapacity := 5000 \<rparr>)) = 0
   \<and> venueCapacity
       (fetchData (Resolved None None) (Resolved None (Some ''PGRST116''))
          (initialOccupancy\<lparr> venueCapacity := 5000 \<rparr>)) = 5000"
  using fetched_capacity [of "Rejected ''offline''" "Rejected ''offline''"
      "initialOccupancy\<lparr> venueCapacity := 5000 \<rparr>" None None]
    fetched_capacity [of "Rejected ''offline''"
      "Resolved (Some \<lparr> count = 12 \<rparr>) None"
      "initialOccupancy\<lparr> venueCapacity := 5000 \<rparr>"
      "Some \<lparr> venue_capacity = \<lparr> isTruthy = False, parseInt = 0 \<rparr> \<rparr>" None]
    fetched_capacity [of "Rejected ''offline''"
      "Resolved (Some \<lparr> count = 12 \<rparr>) None"
      "initialOccupancy\<lparr> venueCapacity := 5000 \<rparr>"
      "Some \<lparr> venue_capacity = \<lparr> isTruthy = True, parseInt = 4200 \<rparr> \<rparr>" None]
    fetched_capacity [of "Rejected ''offline''"
      "Resolved (Some \<lparr> count = 12 \<rparr>) None"
      "initialOccupancy\<lparr> venueCapacity := 5000 \<rparr>"
      "Some \<lparr> venue_capacity = \<lparr> isTruthy = True, parseInt = 0 \<rparr> \<rparr>" None]
    fetched_capacity [of "Rejected ''offline''"
      "Resolved None (Some ''PGRST116'')"
      "initialOccupancy\<lparr> venueCapacity := 5000 \<rparr>" None None]
  by (simp add: occupancyReadFails_def initialOccupancy_def)


text \<open>
  C8, as stated, fails for the Dashboard: after statistics have been stored, a
  \<open>fetchIncidentStats\<close> whose read is rejected leaves them as they are; they are not
  reset to the zeroed statistics.
\<close>

theorem stats_not_zeroed_counterexample:
  "incidentStats
     (dashboardRun
        [ DashboardEffect,
          StatsSettled (Resolved (Some \<lparr> row_id = ''e1'' \<rparr>) None)
            (Resolved (Some [\<lparr> incident_type = ''Refusal'', is_closed = False,
                                action_taken = JNull \<rparr>]) None),
          IncidentNotification,
          StatsSettled (Rejected ''offline'') (Rejected ''offline'') ])
   \<noteq> initialIncidentStats"
  by code_simp

text \<open>
  C8, amended. Every failing read is handled inside the fetcher, which always returns a
  state. \<open>fetchData\<close> logs the error, sets the count to 0 and the capacity to 3500 and
  clears \<open>loading\<close>. \<open>fetchIncidentStats\<close> logs a rejected read and changes nothing
  else, so the statistics stay as they were; a response without data ends it with the
  state unchanged and nothing logged.
\<close>

theorem read_errors_caught:
  "(occupancyReadFails ev att \<longrightarrow>
      fetchData ev att s =
        s\<lparr> console := console s @ [ConsoleError ''Error fetching occupancy data:''],
           currentCount := 0, venueCapacity := 3500, loading := False \<rparr>)
   \<and> fetchIncidentStats (Rejected x) incidentsRead d =
        d\<lparr> console := console d @ [ConsoleError ''Error fetching incident stats:''] \<rparr>
   \<and> fetchIncidentStats (Resolved (Some row) err) (Rejected x) d =
        d\<lparr> console := console d @ [ConsoleError ''Error fetching incident stats:''] \<rparr>
   \<and> fetchIncidentStats (Resolved None err) incidentsRead d = d
   \<and> fetchIncidentStats (Resolved (Some row) err) (Resolved None err') d = d"
  by (simp add: fetchData_failure fetchIncidentStats_def fetchIncidentStats_try_def
      logError_def)

theorem read_errors_caught_witness:
  "fetchData (Resolved None (Some ''PGRST301'')) (Rejected ''unused'') initialOccupancy
     = initialOccupancy
         \<lparr> console := [ConsoleError ''Error fetching occupancy data:''],
           currentCount := 0, venueCapacity := 3500, loading := False \<rparr>"
  using read_errors_caught [of "Resolved None (Some ''PGRST301'')" "Rejected ''unused''"
      initialOccupancy]
  by (simp add: occupancyReadFails_def initialOccupancy_def)

section \<open>Properties of the push handlers\<close>

lemma push_number:
  "payload = JObj fs \<and> map_of fs ''new'' = Some (JObj gs)
     \<and> map_of gs ''count'' = Some (JNum n)
   \<Longrightarrow> currentCount (onInsert payload s) = n \<and> currentCount (onUpdate payload s) = n"
  by (auto simp: onInsert_def onUpdate_def Let_def logLine_def)

lemma push_malformed:
  "\<not> (\<exists>fs gs n. payload = JObj fs \<and> map_of fs ''new'' = Some (JObj gs)
         \<and> map_of gs ''count'' = Some (JNum n))
   \<Longrightarrow> currentCount (onInsert payload s) = currentCount s
       \<and> currentCount (onUpdate payload s) = currentCount s"
  apply (cases payload;
      simp add: onInsert_def onUpdate_def Let_def logLine_def
        split: option.splits jsval.splits)
  subgoal for fs
    apply (cases "map_of fs ''new''"; simp)
    subgoal for nw
      by (cases nw; auto split: option.splits jsval.splits)
    done
  done

lemma push_frame:
  "loading (onInsert p s) = loading s \<and> venueCapacity (onInsert p s) = venueCapacity s
   \<and> subscriptionRef (onInsert p s) = subscriptionRef s
   \<and> realtime (onInsert p s) = realtime s
   \<and> loading (onUpdate p s) = loading s \<and> venueCapacity (onUpdate p s) = venueCapacity s
   \<and> subscriptionRef (onUpdate p s) = subscriptionRef s
   \<and> realtime (onUpdate p s) = realtime s"
  by (simp add: onInsert_def onUpdate_def Let_def logLine_def split: jsval.splits)

text \<open>
  C9. A notification whose payload has a \<open>new\<close> row with a numeric \<open>count\<close> sets the
  current count to that number; every other payload (no row, or a count that is missing
  or not a number) leaves the current count as it was. Neither handler touches the
  capacity, the loading flag or the channel.
\<close>

theorem push_sets_count_iff_number:
  "(payload = JObj fs \<and> map_of fs ''new'' = Some (JObj gs)
      \<and> map_of gs ''count'' = Some (JNum n)
    \<longrightarrow> currentCount (onInsert payload s) = n \<and> currentCount (onUpdate payload s) = n)
   \<and> (\<not> (\<exists>fs gs n. payload = JObj fs \<and> map_of fs ''new'' = Some (JObj gs)
            \<and> map_of gs ''count'' = Some (JNum n))
    \<longrightarrow> currentCount (onInsert payload s) = currentCount s
        \<and> currentCount (onUpdate payload s) = currentCount s)
   \<and> venueCapacity (onInsert payload s) = venueCapacity s
   \<and> venueCapacity (onUpdate payload s) = venueCapacity s
   \<and> loading (onInsert payload s) = loading s
   \<and> loading (onUpdate payload s) = loading s"
  using push_number [of payload fs gs n s] push_malformed [of payload s]
    push_frame [of payload s]
  by blast

theorem push_sets_count_iff_number_witness:
  "currentCount (onInsert (JObj [(''new'', JObj [(''count'', JNum 42)])]) initialOccupancy) = 42
   \<and> currentCount (onUpdate (JObj [(''new'', JObj [(''count'', JNum 42)])]) initialOccupancy) = 42
   \<and> currentCount (onInsert (JObj [(''new'', JObj [(''count'', JStr ''42'')])])
        (initialOccupancy\<lparr> currentCount := 7 \<rparr>)) = 7
   \<and> currentCount (onUpdate (JObj [(''old'', JObj [(''count'', JNum 42)])])
        (initialOccupancy\<lparr> currentCount := 7 \<rparr>)) = 7"
  using push_sets_count_iff_number [of "JObj [(''new'', JObj [(''count'', JNum 42)])]"
      "[(''new'', JObj [(''count'', JNum 42)])]" "[(''count'', JNum 42)]" 42
      initialOccupancy]
    push_sets_count_iff_number [of "JObj [(''new'', JObj [(''count'', JStr ''42'')])]"
      "[]" "[]" 0 "initialOccupancy\<lparr> currentCount := 7 \<rparr>"]
    push_sets_count_iff_number [of "JObj [(''old'', JObj [(''count'', JNum 42)])]"
      "[]" "[]" 0 "initialOccupancy\<lparr> currentCount := 7 \<rparr>"]
  by (simp add: initialOccupancy_def)

section \<open>Properties of the occupancy card\<close>

lemma percent_floor:
  assumes "0 < v"
  shows "\<lfloor>real_of_int c / real_of_int v * 100 + 1 / 2\<rfloor> = (200 * c + v) div (2 * v)"
proof -
  have "real_of_int c / real_of_int v * 100 + 1 / 2
          = real_of_int (200 * c + v) / real_of_int (2 * v)"
    using assms by (simp add: field_simps)
  then show ?thesis
    by (simp only: floor_divide_of_int_eq)
qed

lemma percent_int:
  "0 < v \<Longrightarrow>
     Math_round (jsTimes (jsDivide c v) 100) = Fin (of_int ((200 * c + v) div (2 * v)))"
  using percent_floor [of v c] by (simp add: jsDivide_def)

lemma percent_nearest:
  assumes "0 < v"
  shows "\<bar>real_of_int ((200 * c + v) div (2 * v)) - 100 * real_of_int c / real_of_int v\<bar>
           \<le> 1 / 2"
proof -
  define x where "x = real_of_int c / real_of_int v * 100"
  define p where "p = real_of_int \<lfloor>x + 1 / 2\<rfloor>"
  have e: "real_of_int ((200 * c + v) div (2 * v)) = p"
    using percent_floor [OF assms, of c] by (simp add: p_def x_def)
  have x: "100 * real_of_int c / real_of_int v = x"
    by (simp add: x_def)
  have "p \<le> x + 1 / 2" unfolding p_def by (rule of_int_floor_le)
  moreover have "x + 1 / 2 < p + 1" unfolding p_def by linarith
  ultimately show ?thesis unfolding e x by linarith
qed

lemma statusColor_tiers:
  "statusColor c v =
     (if c > v then ''#ef4444'' else if 9 * v \<le> 10 * c then ''#f97316'' else ''#2A3990'')"
proof -
  have "(real_of_int v * (9 / 10) \<le> real_of_int c)
          = (real_of_int (9 * v) \<le> real_of_int (10 * c))"
    by (simp add: field_simps)
  also have "\<dots> = (9 * v \<le> 10 * c)" by (simp only: of_int_le_iff)
  finally show ?thesis by (simp add: statusColor_def)
qed

lemma render_bar:
  assumes "0 < venueCapacity s" "\<not> loading s" "truthyStr k"
  shows "render k s = OccupancyCard (currentCount s) (venueCapacity s)
          (Some \<lparr> percentText =
                    Fin (of_int ((200 * currentCount s + venueCapacity s)
                                  div (2 * venueCapacity s))),
                  percentColor = statusColor (currentCount s) (venueCapacity s),
                  overCapacity = (currentCount s > venueCapacity s),
                  barWidth =
                    Fin (of_int (min ((200 * currentCount s + venueCapacity s)
                                       div (2 * venueCapacity s)) 100)),
                  barColor = statusColor (currentCount s) (venueCapacity s) \<rparr>)"
  using assms percent_int [of "venueCapacity s" "currentCount s"]
  by (simp add: render_def renderBar_def min_def)

lemma render_capacity_zero:
  "venueCapacity s = 0 \<Longrightarrow>
     render k s =
       (if loading s then LoadingSkeleton
        else if \<not> truthyStr k then NoEventSelected
        else OccupancyCard (currentCount s) 0 None)"
  by (simp add: render_def)

lemma render_bar_finite:
  "render k s = OccupancyCard c v (Some b) \<Longrightarrow>
     v \<noteq> 0 \<and> jsDivide c v = Fin (real_of_int c / real_of_int v)
     \<and> (\<exists>p w. percentText b = Fin p \<and> barWidth b = Fin w)"
  by (auto simp add: render_def renderBar_def jsDivide_def split: if_splits)

lemma jsDivide_zero: "jsDivide c 0 \<noteq> Fin x"
  by (simp add: jsDivide_def)

lemma nearest_unique:
  assumes "\<bar>real_of_int p - x\<bar> \<le> 1 / 2" and "\<bar>x - real_of_int n\<bar> < 1 / 2"
  shows "p = n"
proof -
  have "real_of_int (p - n) = real_of_int p - real_of_int n" by simp
  with assms have "\<bar>real_of_int (p - n)\<bar> < 1" by linarith
  then have "\<bar>p - n\<bar> < 1" by linarith
  then show ?thesis by simp
qed

text \<open>
  C6. For every count and every positive capacity, the card of a loaded view with an
  event shows: a percentage \<open>p\<close>, an integer within one half of \<open>100 * count /
  capacity\<close> and not clamped (4000 of 3500 gives 114); a bar of width \<open>min p 100\<close>; the
  over-capacity flag exactly when the count exceeds the capacity; and for the text and
  the bar the colour of the tier: normal below nine tenths of the capacity, warning from
  there up to the capacity itself, over-capacity above it.
\<close>

theorem occupancy_bar:
  assumes "0 < venueCapacity s" and "\<not> loading s" and "truthyStr k"
  shows "\<exists>p. (let c = currentCount s; v = venueCapacity s;
                  tier = (if c > v then ''#ef4444''
                          else if 9 * v \<le> 10 * c then ''#f97316'' else ''#2A3990'')
              in render k s =
                   OccupancyCard c v
                     (Some \<lparr> percentText = Fin (of_int p), percentColor = tier,
                             overCapacity = (c > v), barWidth = Fin (of_int (min p 100)),
                             barColor = tier \<rparr>)
                 \<and> \<bar>real_of_int p - 100 * real_of_int c / real_of_int v\<bar> \<le> 1 / 2
                 \<and> (c = 4000 \<and> v = 3500 \<longrightarrow> p = 114))"
proof -
  have "(200 * 4000 + 3500) div (2 * 3500) = (114 :: int)" by simp
  then have "(let c = currentCount s; v = venueCapacity s;
                  tier = (if c > v then ''#ef4444''
                          else if 9 * v \<le> 10 * c then ''#f97316'' else ''#2A3990'');
                  p = (200 * c + v) div (2 * v)
              in render k s =
                   OccupancyCard c v
                     (Some \<lparr> percentText = Fin (of_int p), percentColor = tier,
                             overCapacity = (c > v), barWidth = Fin (of_int (min p 100)),
                             barColor = tier \<rparr>)
                 \<and> \<bar>real_of_int p - 100 * real_of_int c / real_of_int v\<bar> \<le> 1 / 2
                 \<and> (c = 4000 \<and> v = 3500 \<longrightarrow> p = 114))"
    using render_bar [OF assms] percent_nearest [OF assms(1), of "currentCount s"]
    by (simp add: Let_def statusColor_tiers)
  then show ?thesis unfolding Let_def by (rule exI)
qed

theorem occupancy_bar_witness:
  "render (Some ''e1'') (initialOccupancy\<lparr> currentCount := 4000, loading := False \<rparr>)
     = OccupancyCard 4000 3500
         (Some \<lparr> percentText = Fin 114, percentColor = ''#ef4444'', overCapacity = True,
                 barWidth = Fin 100, barColor = ''#ef4444'' \<rparr>)
   \<and> render (Some ''e1'') (initialOccupancy\<lparr> currentCount := 3500, loading := False \<rparr>)
     = OccupancyCard 3500 3500
         (Some \<lparr> percentText = Fin 100, percentColor = ''#f97316'', overCapacity = False,
                 barWidth = Fin 100, barColor = ''#f97316'' \<rparr>)
   \<and> render (Some ''e1'') (initialOccupancy\<lparr> currentCount := 3149, loading := False \<rparr>)
     = OccupancyCard 3149 3500
         (Some \<lparr> percentText = Fin 90, percentColor = ''#2A3990'', overCapacity = False,
                 barWidth = Fin 90, barColor = ''#2A3990'' \<rparr>)"
proof -
  have shown: "render (Some ''e1'') (initialOccupancy\<lparr> currentCount := c, loading := False \<rparr>)
      = OccupancyCard c 3500
          (Some \<lparr> percentText = Fin (of_int n),
                  percentColor = (if c > 3500 then ''#ef4444''
                                  else if 9 * 3500 \<le> 10 * c then ''#f97316'' else ''#2A3990''),
                  overCapacity = (c > 3500), barWidth = Fin (of_int (min n 100)),
                  barColor = (if c > 3500 then ''#ef4444''
                              else if 9 * 3500 \<le> 10 * c then ''#f97316'' else ''#2A3990'') \<rparr>)"
    if near: "\<bar>100 * real_of_int c / real_of_int 3500 - real_of_int n\<bar> < 1 / 2" for c n
  proof -
    let ?s = "initialOccupancy\<lparr> currentCount := c, loading := False \<rparr>"
    have c: "currentCount ?s = c" and v: "venueCapacity ?s = 3500"
      by (simp_all add: initialOccupancy_def)
    have "0 < venueCapacity ?s" "\<not> loading ?s" "truthyStr (Some ''e1'')"
      by (simp_all add: initialOccupancy_def truthyStr_def)
    from occupancy_bar [OF this] obtain p where
      r: "render (Some ''e1'') ?s
            = OccupancyCard c 3500
                (Some \<lparr> percentText = Fin (of_int p),
                        percentColor = (if c > 3500 then ''#ef4444''
                                        else if 9 * 3500 \<le> 10 * c then ''#f97316''
                                        else ''#2A3990''),
                        overCapacity = (c > 3500), barWidth = Fin (of_int (min p 100)),
                        barColor = (if c > 3500 then ''#ef4444''
                                    else if 9 * 3500 \<le> 10 * c then ''#f97316''
                                    else ''#2A3990'') \<rparr>)"
      and n: "\<bar>real_of_int p - 100 * real_of_int c / real_of_int 3500\<bar> \<le> 1 / 2"
      unfolding Let_def c v by blast
    have "p = n" by (rule nearest_unique [OF n near])
    with r show ?thesis by simp
  qed
  from shown [of 4000 114] shown [of 3500 100] shown [of 3149 90]
  show ?thesis by simp
qed

text \<open>
  C7. With a capacity of zero the view renders no bar and no percentage, whatever the
  count: it is the skeleton, the "no event" card, or the card with the two numbers
  only. Whenever a bar is rendered the capacity it divides by is not zero, the quotient
  is the finite one, and the percentage and the width are finite numbers; a division by
  zero would have shown as a number that is not finite.
\<close>

theorem capacity_zero_suppressed:
  "(venueCapacity s = 0 \<longrightarrow>
      render k s =
        (if loading s then LoadingSkeleton
         else if \<not> truthyStr k then NoEventSelected
         else OccupancyCard (currentCount s) 0 None))
   \<and> (render k s = OccupancyCard c v (Some b) \<longrightarrow>
        v \<noteq> 0 \<and> jsDivide c v = Fin (real_of_int c / real_of_int v)
        \<and> (\<exists>p w. percentText b = Fin p \<and> barWidth b = Fin w))
   \<and> (\<forall>x. jsDivide c 0 \<noteq> Fin x)"
  using render_capacity_zero [of s k] render_bar_finite [of k s c v b] jsDivide_zero [of c]
  by blast

theorem capacity_zero_suppressed_witness:
  "render (Some ''e1'')
      (initialOccupancy\<lparr> currentCount := 7, loading := False, venueCapacity := 0 \<rparr>)
     = OccupancyCard 7 0 None
   \<and> jsDivide 7 2 = Fin (7 / 2)"
  using capacity_zero_suppressed
      [of "initialOccupancy\<lparr> currentCount := 7, loading := False, venueCapacity := 0 \<rparr>"
        "Some ''e1''" 7 0 undefined]
    capacity_zero_suppressed
      [of "initialOccupancy\<lparr> currentCount := 7, loading := False, venueCapacity := 2 \<rparr>"
        "Some ''e1''" 7 2
        "renderBar 7 2"]
  by (simp add: initialOccupancy_def truthyStr_def render_def)

section \<open>Properties of the schedule\<close>

lemma out_pairs:
  "map (\<lambda>e. (title e, time e)) (nextThreeTimings event now)
     = map (\<lambda>x. (fst x, fst (snd x))) (take 3 (futureTimings event now))"
proof -
  let ?E = "List.enumerate 0 (take 3 (futureTimings event now))"
  have "map (\<lambda>e. (title e, time e)) (nextThreeTimings event now)
          = map (\<lambda>q. (fst (snd q), fst (snd (snd q)))) ?E"
    by (simp add: nextThreeTimings_def case_prod_beta)
  also have "\<dots> = map (\<lambda>x. (fst x, fst (snd x))) (map snd ?E)"
    by (simp only: map_map comp_def)
  finally show ?thesis by (simp only: map_snd_enumerate)
qed

lemma out_flags:
  "map isNext (nextThreeTimings event now) = map (\<lambda>i. i = 0) [0..<length (nextThreeTimings event now)]"
proof -
  let ?E = "List.enumerate 0 (take 3 (futureTimings event now))"
  have "map isNext (nextThreeTimings event now) = map (\<lambda>q. fst q = 0) ?E"
    by (simp add: nextThreeTimings_def case_prod_beta)
  also have "\<dots> = map (\<lambda>i. i = 0) (map fst ?E)"
    by (simp only: map_map comp_def)
  also have "\<dots> = map (\<lambda>i. i = 0) [0..<length (take 3 (futureTimings event now))]"
    by (simp only: map_fst_enumerate add_0)
  finally show ?thesis by (simp add: nextThreeTimings_def)
qed

lemma out_length: "length (nextThreeTimings event now) = min 3 (length (filter (isFuture (currentTimeNumber now)) (timingsWithMinutes event)))"
  by (simp add: nextThreeTimings_def futureTimings_def min.commute)

lemma tw_shape: "x \<in> set (timingsWithMinutes event) \<Longrightarrow> snd (snd x) = timeInMinutes (fst (snd x)) \<and> (fst x, fst (snd x)) \<in> set (timings event)"
  by (auto simp add: timingsWithMinutes_def)

lemma timings_set: "(ttl, t) \<in> set (timings event) \<Longrightarrow> (ttl, Some t) \<in> set (scheduleFields event) \<and> t \<noteq> []"
  by (auto simp add: timings_def truthyStr_def split: option.splits)

lemma timings_complete: "(ttl, Some t) \<in> set (scheduleFields event) \<Longrightarrow> t \<noteq> [] \<Longrightarrow> (ttl, t) \<in> set (timings event)"
  by (force simp add: timings_def truthyStr_def split: option.splits)

lemma future_set: "set (futureTimings event now) = {x \<in> set (timingsWithMinutes event). isFuture (currentTimeNumber now) x}"
  by (auto simp add: futureTimings_def)

lemma out_entries:
  assumes "e \<in> set (nextThreeTimings event now)"
  shows "(title e, Some (time e)) \<in> set (scheduleFields event) \<and> time e \<noteq> []
         \<and> (\<exists>m. timeInMinutes (time e) = Some m \<and> m > currentTimeNumber now)"
proof -
  have "(title e, time e) \<in> set (map (\<lambda>e. (title e, time e)) (nextThreeTimings event now))"
    using assms by force
  then obtain x where x: "x \<in> set (take 3 (futureTimings event now))" and e: "title e = fst x" "time e = fst (snd x)"
    unfolding out_pairs by auto
  from x have "x \<in> set (futureTimings event now)" by (rule in_set_takeD)
  then have tw: "x \<in> set (timingsWithMinutes event)" and fu: "isFuture (currentTimeNumber now) x"
    by (simp_all add: future_set)
  from tw_shape [OF tw] have m: "snd (snd x) = timeInMinutes (time e)" and t: "(title e, time e) \<in> set (timings event)"
    by (simp_all add: e)
  from fu m have "\<exists>m. timeInMinutes (time e) = Some m \<and> m > currentTimeNumber now"
    by (auto simp add: isFuture_def split: option.splits)
  with timings_set [OF t] show ?thesis by simp
qed

lemma future_key: "x \<in> set (futureTimings event now) \<Longrightarrow> snd (snd x) = Some (minutesKey x) \<and> minutesKey x > currentTimeNumber now"
  by (auto simp add: future_set isFuture_def minutesKey_def split: option.splits)

lemma out_minutes:
  "map entryMinutes (nextThreeTimings event now) = map minutesKey (take 3 (futureTimings event now))"
proof -
  have "map entryMinutes (nextThreeTimings event now) = map (\<lambda>p. case timeInMinutes (snd p) of None \<Rightarrow> 0 | Some m \<Rightarrow> m) (map (\<lambda>e. (title e, time e)) (nextThreeTimings event now))"
    by (simp add: entryMinutes_def comp_def)
  also have "\<dots> = map (\<lambda>x. case timeInMinutes (fst (snd x)) of None \<Rightarrow> 0 | Some m \<Rightarrow> m) (take 3 (futureTimings event now))"
    unfolding out_pairs by (simp add: comp_def)
  also have "\<dots> = map minutesKey (take 3 (futureTimings event now))"
  proof (rule map_cong [OF refl])
    fix x assume "x \<in> set (take 3 (futureTimings event now))"
    then have "x \<in> set (futureTimings event now)" by (rule in_set_takeD)
    then have "x \<in> set (timingsWithMinutes event)" by (simp add: future_set)
    from tw_shape [OF this] show "(case timeInMinutes (fst (snd x)) of None \<Rightarrow> 0 | Some m \<Rightarrow> m) = minutesKey x"
      by (simp add: minutesKey_def)
  qed
  finally show ?thesis .
qed

lemma out_sorted: "sorted (map entryMinutes (nextThreeTimings event now))"
proof -
  have "sorted (map minutesKey (futureTimings event now))"
    by (simp add: futureTimings_def)
  then have "sorted (take 3 (map minutesKey (futureTimings event now)))"
    by (rule sorted_wrt_take)
  then show ?thesis by (simp add: out_minutes take_map)
qed


lemma future_filter_key:
  "filter (\<lambda>x. timeInMinutes (fst (snd x)) = Some k) (futureTimings event now)
     = filter (\<lambda>x. minutesKey x = k) (futureTimings event now)"
proof (rule filter_cong [OF refl])
  fix x assume x: "x \<in> set (futureTimings event now)"
  then have "x \<in> set (timingsWithMinutes event)" by (simp add: future_set)
  from tw_shape [OF this] future_key [OF x]
  show "(timeInMinutes (fst (snd x)) = Some k) = (minutesKey x = k)" by auto
qed

lemma tw_filter_key:
  assumes "k > currentTimeNumber now"
  shows "filter (\<lambda>x. minutesKey x = k) (filter (isFuture (currentTimeNumber now)) (timingsWithMinutes event))
     = filter (\<lambda>x. timeInMinutes (fst (snd x)) = Some k) (timingsWithMinutes event)"
  unfolding filter_filter
proof (rule filter_cong [OF refl])
  fix x assume "x \<in> set (timingsWithMinutes event)"
  from tw_shape [OF this] have "snd (snd x) = timeInMinutes (fst (snd x))" by simp
  then show "(isFuture (currentTimeNumber now) x \<and> minutesKey x = k) = (timeInMinutes (fst (snd x)) = Some k)"
    using assms by (cases "timeInMinutes (fst (snd x))") (auto simp add: isFuture_def minutesKey_def)
qed

lemma out_stable:
  "prefix (filter (\<lambda>p. timeInMinutes (snd p) = Some k) (map (\<lambda>e. (title e, time e)) (nextThreeTimings event now)))
          (filter (\<lambda>p. timeInMinutes (snd p) = Some k) (timings event))"
proof (cases "k > currentTimeNumber now")
  case False
  have "timeInMinutes (time e) \<noteq> Some k" if "e \<in> set (nextThreeTimings event now)" for e
    using False out_entries [OF that] by auto
  then have "filter (\<lambda>p. timeInMinutes (snd p) = Some k) (map (\<lambda>e. (title e, time e)) (nextThreeTimings event now)) = []"
    by (simp add: filter_empty_conv)
  then show ?thesis by simp
next
  case True
  let ?h = "\<lambda>x :: string \<times> string \<times> int option. (fst x, fst (snd x))"
  let ?P = "\<lambda>p :: string \<times> string. timeInMinutes (snd p) = Some k"
  let ?Q = "\<lambda>x :: string \<times> string \<times> int option. timeInMinutes (fst (snd x)) = Some k"
  let ?F = "futureTimings event now"
  let ?TW = "timingsWithMinutes event"
  have PQ: "filter ?P (map ?h xs) = map ?h (filter ?Q xs)" for xs
    by (simp add: filter_map comp_def)
  have "prefix (filter ?Q (take 3 ?F)) (filter ?Q ?F)"
    by (rule filter_mono_prefix [OF take_is_prefix])
  then have 1: "prefix (filter ?P (map ?h (take 3 ?F))) (filter ?P (map ?h ?F))"
    unfolding PQ by (rule map_mono_prefix)
  have "filter ?Q ?F = filter (\<lambda>x. minutesKey x = k) ?F"
    by (rule future_filter_key)
  also have "\<dots> = filter (\<lambda>x. minutesKey x = k) (filter (isFuture (currentTimeNumber now)) ?TW)"
    by (simp only: futureTimings_def sort_key_stable)
  also have "\<dots> = filter ?Q ?TW"
    by (rule tw_filter_key [OF True])
  finally have "filter ?P (map ?h ?F) = filter ?P (map ?h ?TW)"
    by (simp only: PQ)
  moreover have "map ?h ?TW = timings event"
    by (simp add: timingsWithMinutes_def case_prod_beta comp_def)
  ultimately show ?thesis using 1 by (simp only: out_pairs)
qed

text \<open>
  C3, amended. For every event whose set schedule fields are times of day and every
  current time, the selector returns at most three entries (three, or all future
  entries when there are fewer); each is one of the set fields, with its title, and its
  time in minutes since midnight is strictly greater than the current one; the entries
  are in ascending order of time, where fields with the same time are all kept and stay
  in the order of the field list; exactly the first entry is flagged as next.
\<close>

theorem next_event_selector:
  assumes "\<forall>p \<in> set (timings event). isClockTime (snd p)"
  shows "(let out = nextThreeTimings event now; current = currentTimeNumber now
          in length out \<le> 3
             \<and> length out =
                 min 3 (length (filter (isFuture current) (timingsWithMinutes event)))
             \<and> (\<forall>e \<in> set out.
                   (title e, Some (time e)) \<in> set (scheduleFields event) \<and> time e \<noteq> []
                   \<and> timeInMinutes (time e) = Some (entryMinutes e)
                   \<and> entryMinutes e > current)
             \<and> sorted (map entryMinutes out)
             \<and> (\<forall>k. prefix
                   (filter (\<lambda>p. timeInMinutes (snd p) = Some k)
                      (map (\<lambda>e. (title e, time e)) out))
                   (filter (\<lambda>p. timeInMinutes (snd p) = Some k) (timings event)))
             \<and> map isNext out = map (\<lambda>i. i = 0) [0..<length out])"
proof -
  have "length (nextThreeTimings event now) \<le> 3"
    by (simp add: out_length)
  moreover have "\<forall>e \<in> set (nextThreeTimings event now).
       (title e, Some (time e)) \<in> set (scheduleFields event) \<and> time e \<noteq> []
       \<and> timeInMinutes (time e) = Some (entryMinutes e)
       \<and> entryMinutes e > currentTimeNumber now"
    using out_entries [of _ event now] by (fastforce simp add: entryMinutes_def)
  ultimately show ?thesis
    using out_length [of event now] out_sorted [of event now] out_stable [of _ event now]
      out_flags [of event now]
    by (simp add: Let_def)
qed

text \<open>
  C3, as stated, fails: the order is not strict. Two fields set to the same time are
  both returned.
\<close>

theorem strictly_sorted_counterexample:
  "nextThreeTimings
      \<lparr> security_call_time = None, main_act_start_time = Some ''20:00'',
        show_down_time = None, show_stop_meeting_time = None,
        doors_open_time = Some ''20:00'', curfew_time = None,
        event_name = ''Headliner'' \<rparr> 68400000
     = [ \<lparr> title = ''Doors Open'', time = ''20:00'', isNext = True \<rparr>,
         \<lparr> title = ''Headliner'', time = ''20:00'', isNext = False \<rparr> ]
   \<and> \<not> sorted_wrt (<)
         (map entryMinutes
            (nextThreeTimings
               \<lparr> security_call_time = None, main_act_start_time = Some ''20:00'',
                 show_down_time = None, show_stop_meeting_time = None,
                 doors_open_time = Some ''20:00'', curfew_time = None,
                 event_name = ''Headliner'' \<rparr> 68400000))"
  by code_simp

theorem next_event_selector_witness:
  "nextThreeTimings
      \<lparr> security_call_time = None, main_act_start_time = Some ''20:00'',
        show_down_time = None, show_stop_meeting_time = Some [],
        doors_open_time = Some ''18:00'', curfew_time = Some ''23:00'',
        event_name = ''Main Act'' \<rparr> 68400000
     = [ \<lparr> title = ''Main Act'', time = ''20:00'', isNext = True \<rparr>,
         \<lparr> title = ''Curfew'', time = ''23:00'', isNext = False \<rparr> ]
   \<and> sorted (map entryMinutes
         (nextThreeTimings
            \<lparr> security_call_time = None, main_act_start_time = Some ''20:00'',
              show_down_time = None, show_stop_meeting_time = Some [],
              doors_open_time = Some ''18:00'', curfew_time = Some ''23:00'',
              event_name = ''Main Act'' \<rparr> 68400000))"
proof -
  let ?ev = "\<lparr> security_call_time = None, main_act_start_time = Some ''20:00'',
              show_down_time = None, show_stop_meeting_time = Some [],
              doors_open_time = Some ''18:00'', curfew_time = Some ''23:00'',
              event_name = ''Main Act'' \<rparr>"
  have h: "\<forall>p \<in> set (timings ?ev). isClockTime (snd p)"
    by code_simp
  have v: "nextThreeTimings ?ev 68400000
     = [ \<lparr> title = ''Main Act'', time = ''20:00'', isNext = True \<rparr>,
         \<lparr> title = ''Curfew'', time = ''23:00'', isNext = False \<rparr> ]"
    by code_simp
  from next_event_selector [OF h, of 68400000]
  have "sorted (map entryMinutes (nextThreeTimings ?ev 68400000))"
    by (simp add: Let_def)
  with v show ?thesis by simp
qed

section \<open>Properties of the countdown\<close>

lemma Number_nonneg: "Number s = Some n \<Longrightarrow> 0 \<le> n"
  by (auto simp add: Number_def split: if_splits)

lemma twoDigits_range: "twoDigits s b \<Longrightarrow> \<exists>n. Number s = Some n \<and> 0 \<le> n \<and> n < int b"
  by (auto simp add: twoDigits_def Number_nonneg split: option.splits)

lemma clock_parse:
  assumes "isClockTime t" and "hoursMinutes t = (Some h, Some m)"
  shows "0 \<le> h \<and> h < 24 \<and> 0 \<le> m \<and> m < 60"
proof -
  from assms(1) obtain a b r where sp: "splitOn CHR '':'' t = a # b # r"
    and a: "twoDigits a 24" and b: "twoDigits b 60"
    by (auto simp add: isClockTime_def split: list.splits)
  from assms(2) sp have "Number a = Some h" "Number b = Some m"
    by (simp_all add: hoursMinutes_def)
  with twoDigits_range [OF a] twoDigits_range [OF b] show ?thesis by auto
qed

lemma now_split: "now mod msPerDay = ((now mod msPerDay) div 1000) * 1000 + now mod 1000"
proof -
  have "(now mod msPerDay) mod 1000 = now mod 1000"
    unfolding msPerDay_def by (rule mod_mod_cancel) simp
  then show ?thesis
    using div_mult_mod_eq [of "now mod msPerDay" 1000] by simp
qed

lemma nowSec_range: "0 \<le> (now mod msPerDay) div 1000 \<and> (now mod msPerDay) div 1000 < 86400"
proof -
  have "0 \<le> now mod msPerDay" "now mod msPerDay < 86400000"
    by (simp_all add: msPerDay_def)
  moreover have "0 \<le> now mod 1000" "now mod 1000 < 1000"
    by simp_all
  ultimately show ?thesis
    using now_split [of now] by linarith
qed

lemma target_any_zone:
  assumes "hoursMinutes t = (Some h, Some m)"
  shows "countdownTarget z now t =
     Some (let l = LocalTime z now;
               today = UTC z ((l - l mod msPerDay) + (h * 3600 + m * 60) * 1000 + l mod 1000)
           in if today < now then UTC z (LocalTime z today + msPerDay) else today)"
proof -
  define l where "l = LocalTime z now"
  have "(l - l mod msPerDay) + h * 3600000 + m * 60000 + 0 * 1000 + l mod 1000
          = (l - l mod msPerDay) + (h * 3600 + m * 60) * 1000 + l mod 1000"
    by simp
  then have e: "setHours z now h m 0
          = UTC z ((l - l mod msPerDay) + (h * 3600 + m * 60) * 1000 + l mod 1000)"
    unfolding setHours_def Let_def l_def by (rule arg_cong)
  show ?thesis
    using assms by (simp add: countdownTarget_def addOneDay_def Let_def e flip: l_def)
qed

lemma jsRem_nonneg: "0 \<le> a \<Longrightarrow> 0 < b \<Longrightarrow> jsRem a b = a mod b"
  by (cases "a = 0") (simp_all add: jsRem_def)

lemma whole_seconds:
  fixes d :: int
  shows "d div 3600000 = d div 1000 div 3600"
    and "d mod 3600000 div 60000 = d div 1000 mod 3600 div 60"
    and "d mod 60000 div 1000 = d div 1000 mod 60"
proof -
  show "d div 3600000 = d div 1000 div 3600"
    using zdiv_zmult2_eq [of 3600 d 1000] by simp
  have "d mod 3600000 = 1000 * (d div 1000 mod 3600) + d mod 1000"
    using zmod_zmult2_eq [of 3600 d 1000] by simp
  then have "d mod 3600000 div 1000 = d div 1000 mod 3600"
    by simp
  moreover have "d mod 3600000 div 60000 = d mod 3600000 div 1000 div 60"
    using zdiv_zmult2_eq [of 60 "d mod 3600000" 1000] by simp
  ultimately show "d mod 3600000 div 60000 = d div 1000 mod 3600 div 60"
    by simp
  have "d mod 60000 = 1000 * (d div 1000 mod 60) + d mod 1000"
    using zmod_zmult2_eq [of 60 d 1000] by simp
  then show "d mod 60000 div 1000 = d div 1000 mod 60"
    by simp
qed

lemma countdown_of_target:
  assumes "countdownTarget z now t = Some target" and "now \<le> target"
  shows "calculateCountdown z now t = durationText ((target - now) div 1000)"
proof -
  have nn: "0 \<le> target - now" using assms(2) by simp
  have j1: "jsRem (target - now) 3600000 = (target - now) mod 3600000"
    by (rule jsRem_nonneg [OF nn]) simp
  have j2: "jsRem (target - now) 60000 = (target - now) mod 60000"
    by (rule jsRem_nonneg [OF nn]) simp
  have c: "(60000::int) * 60 = 3600000" "(1000::int) * 60 = 60000" by simp_all
  show ?thesis
    unfolding calculateCountdown_def assms(1) option.case Let_def c j1 j2
      whole_seconds durationText_def ..
qed


lemma steady_window:
  assumes "steadyClock z now" and "l = LocalTime z now"
    and "l - l mod msPerDay \<le> x" and "x < (l - l mod msPerDay) + 2 * msPerDay"
  shows "UTC z x = x - (l - now)" and "LocalTime z (x - (l - now)) = x"
  using assms unfolding steadyClock_def Let_def by simp_all

lemma steady_target:
  assumes hm: "hoursMinutes t = (Some h, Some m)"
    and r: "0 \<le> h" "h < 24" "0 \<le> m" "m < 60"
    and st: "steadyClock z now"
  shows "countdownTarget z now t =
           Some (UTC z ((LocalTime z now - LocalTime z now mod msPerDay)
                   + (if h * 3600 + m * 60 < (LocalTime z now mod msPerDay) div 1000
                      then msPerDay else 0)
                   + (h * 3600 + m * 60) * 1000 + LocalTime z now mod 1000))"
    and "countdownTarget z now t =
           Some (now + ((h * 3600 + m * 60 - (LocalTime z now mod msPerDay) div 1000) mod 86400) * 1000)"
proof -
  define l where "l = LocalTime z now"
  define n where "n = (l mod msPerDay) div 1000"
  define f where "f = l mod 1000"
  define d where "d = l - l mod msPerDay"
  define T where "T = h * 3600 + m * 60"
  define x where "x = d + T * 1000 + f"
  have n: "0 \<le> n" "n < 86400" using nowSec_range [of l] by (simp_all add: n_def)
  have T: "0 \<le> T" "T \<le> 86340" using r by (simp_all add: T_def)
  have f: "0 \<le> f" "f < 1000" by (simp_all add: f_def)
  have l: "l = d + n * 1000 + f"
    using now_split [of l] by (simp add: n_def f_def d_def)
  have x1: "d \<le> x" "x < d + 2 * msPerDay"
    using T f by (simp_all add: x_def msPerDay_def)
  have x2: "d \<le> x + msPerDay" "x + msPerDay < d + 2 * msPerDay"
    using T f by (simp_all add: x_def msPerDay_def)
  have u1: "UTC z x = x - (l - now)" and l1: "LocalTime z (x - (l - now)) = x"
    using steady_window [OF st l_def, of x] x1 by (simp_all add: d_def)
  have u2: "UTC z (x + msPerDay) = x + msPerDay - (l - now)"
    using steady_window [OF st l_def, of "x + msPerDay"] x2 by (simp_all add: d_def)
  have lt: "(x - (l - now) < now) = (T < n)"
  proof -
    have "(x - (l - now) < now) = (x < l)" by auto
    also have "\<dots> = (d + T * 1000 + f < d + n * 1000 + f)"
      unfolding x_def using l by simp
    also have "\<dots> = (T < n)" by auto
    finally show ?thesis .
  qed
  have tgt: "countdownTarget z now t = Some (if T < n then x + msPerDay - (l - now) else x - (l - now))"
    using target_any_zone [OF hm, of z now]
    unfolding Let_def l_def [symmetric] d_def [symmetric] f_def [symmetric]
      T_def [symmetric] x_def [symmetric] u1 l1 lt u2
    by simp
  have "UTC z (d + (if T < n then msPerDay else 0) + T * 1000 + f)
          = (if T < n then x + msPerDay - (l - now) else x - (l - now))"
  proof (cases "T < n")
    case True
    then have e: "d + (if T < n then msPerDay else 0) + T * 1000 + f = x + msPerDay"
      by (simp add: x_def)
    show ?thesis unfolding e u2 using True by simp
  next
    case False
    then show ?thesis by (simp add: u1 flip: x_def)
  qed
  with tgt show "countdownTarget z now t =
           Some (UTC z ((LocalTime z now - LocalTime z now mod msPerDay)
                   + (if h * 3600 + m * 60 < (LocalTime z now mod msPerDay) div 1000
                      then msPerDay else 0)
                   + (h * 3600 + m * 60) * 1000 + LocalTime z now mod 1000))"
    unfolding l_def [symmetric] d_def [symmetric] f_def [symmetric] T_def [symmetric]
      n_def [symmetric]
    by simp
  have rr: "(T - n) mod 86400 = (if T < n then T - n + 86400 else T - n)"
  proof (cases "T < n")
    case True
    then have "(T - n + 86400) mod 86400 = T - n + 86400"
      using n T by (intro mod_pos_pos_trivial) auto
    then show ?thesis using True by simp
  next
    case False
    then have "(T - n) mod 86400 = T - n"
      using n T by (intro mod_pos_pos_trivial) auto
    then show ?thesis using False by simp
  qed
  have "(if T < n then x + msPerDay - (l - now) else x - (l - now))
          = now + ((T - n) mod 86400) * 1000"
    unfolding rr x_def by (subst (1 2) l) (simp add: msPerDay_def)
  with tgt show "countdownTarget z now t =
           Some (now + ((h * 3600 + m * 60 - (LocalTime z now mod msPerDay) div 1000) mod 86400) * 1000)"
    unfolding l_def [symmetric] T_def [symmetric] n_def [symmetric]
    by simp
qed

lemma steady_countdown:
  assumes hm: "hoursMinutes t = (Some h, Some m)"
    and r: "0 \<le> h" "h < 24" "0 \<le> m" "m < 60"
    and st: "steadyClock z now"
  shows "calculateCountdown z now t =
           durationText ((h * 3600 + m * 60 - (LocalTime z now mod msPerDay) div 1000) mod 86400)"
proof -
  define q where "q = (h * 3600 + m * 60 - (LocalTime z now mod msPerDay) div 1000) mod 86400"
  have q: "0 \<le> q" by (simp add: q_def)
  have tgt: "countdownTarget z now t = Some (now + q * 1000)"
    unfolding q_def by (rule steady_target(2) [OF hm r st])
  have "calculateCountdown z now t = durationText ((now + q * 1000 - now) div 1000)"
    using q by (intro countdown_of_target [OF tgt]) simp
  then show ?thesis by (simp add: q_def)
qed

lemma steady_spec_target:
  assumes hm: "hoursMinutes t = (Some h, Some m)"
    and r: "0 \<le> h" "h < 24" "0 \<le> m" "m < 60"
    and st: "steadyClock z now"
    and ws: "LocalTime z now mod 1000 = 0"
  shows "countdownTarget z now t = Some (specCountdownTarget z now h m)"
proof -
  define l where "l = LocalTime z now"
  define n where "n = (l mod msPerDay) div 1000"
  define d where "d = l - l mod msPerDay"
  define T where "T = h * 3600 + m * 60"
  define x where "x = d + T * 1000"
  have n: "0 \<le> n" "n < 86400" using nowSec_range [of l] by (simp_all add: n_def)
  have T: "0 \<le> T" "T \<le> 86340" using r by (simp_all add: T_def)
  have l: "l = d + n * 1000"
    using now_split [of l] ws by (simp add: n_def d_def l_def)
  have x1: "d \<le> x" "x < d + 2 * msPerDay"
    using T by (simp_all add: x_def msPerDay_def)
  have x2: "d \<le> x + msPerDay" "x + msPerDay < d + 2 * msPerDay"
    using T by (simp_all add: x_def msPerDay_def)
  have u1: "UTC z x = x - (l - now)"
    using steady_window(1) [OF st l_def, of x] x1 by (simp add: d_def)
  have u2: "UTC z (x + msPerDay) = x + msPerDay - (l - now)"
    using steady_window(1) [OF st l_def, of "x + msPerDay"] x2 by (simp add: d_def)
  have lt: "(x - (l - now) < now) = (T < n)"
  proof -
    have "(x - (l - now) < now) = (x < l)" by auto
    also have "\<dots> = (d + T * 1000 < d + n * 1000)"
      unfolding x_def using l by simp
    also have "\<dots> = (T < n)" by auto
    finally show ?thesis .
  qed
  have xx: "d + h * 3600000 + m * 60000 = x" by (simp add: x_def T_def)
  have e: "d + (if T < n then msPerDay else 0) + T * 1000 + l mod 1000
             = (if T < n then x + msPerDay else x)"
    using ws by (simp add: x_def l_def)
  have "specCountdownTarget z now h m
          = (if T < n then UTC z (x + msPerDay) else UTC z x)"
    unfolding specCountdownTarget_def Let_def l_def [symmetric] d_def [symmetric] xx u1 lt ..
  also have "\<dots> = UTC z (if T < n then x + msPerDay else x)"
    by simp
  also have "\<dots> = UTC z (d + (if T < n then msPerDay else 0) + T * 1000 + l mod 1000)"
    unfolding e ..
  finally show ?thesis
    using steady_target(1) [OF hm r st]
    unfolding l_def [symmetric] d_def [symmetric] T_def [symmetric] n_def [symmetric]
    by simp
qed

lemma steady_fixedZone: "steadyClock (fixedZone offset) now"
  by (simp add: steadyClock_def fixedZone_def Let_def)

lemma london_april_local: "LocalTime londonMarch2024 1712084370000 = 1712087970000"
  by code_simp

lemma steady_london_april: "steadyClock londonMarch2024 1712084370000"
  unfolding steadyClock_def Let_def london_april_local
  by (simp add: londonMarch2024_def msPerDay_def)


text \<open>
  C5, as stated, fails within the second of the target itself. On a clock that is on
  UTC, half a second after 20:00 the instant "today at 20:00" is in the past, yet the
  target the code computes is neither rolled forward to tomorrow nor today at 20:00; it
  is the current instant, and the text shows zero.
\<close>

theorem countdown_target_counterexample:
  "hoursMinutes ''20:00'' = (Some 20, Some 0)
   \<and> specCountdownTarget (fixedZone 0) 72000500 20 0 = 158400000
   \<and> countdownTarget (fixedZone 0) 72000500 ''20:00'' = Some 72000500
   \<and> countdownTarget (fixedZone 0) 72000500 ''20:00''
       \<noteq> Some (specCountdownTarget (fixedZone 0) 72000500 20 0)
   \<and> calculateCountdown (fixedZone 0) 72000500 ''20:00'' = ''0h 0m 0s''"
  by code_simp

text \<open>
  C5, amended. For every time of day \<open>h:m\<close>, every current instant and every time
  zone, the target is the instant the zone gives for today's local date at \<open>h:m:00\<close>
  plus the milliseconds of the current instant or, when that instant is before the
  current one, the instant the zone gives for the same local time of day on the next
  local date; when the target is not before the current instant, the text is the whole
  hours, minutes and seconds of the time that remains to the target. When the local
  clock does not change from today's midnight to the end of tomorrow, the target is
  today at \<open>h:m:00\<close> plus the milliseconds of the current instant, moved forward by
  exactly 24 hours when the current clock second is later than \<open>h:m:00\<close>, the text
  is the whole hours, minutes and seconds from the current clock second to the next
  \<open>h:m:00\<close>, and at an instant on a whole second the target is the one of the
  specification. At 19:59:30 against 20:00 the text is "0h 0m 30s"; at 20:00:01 the
  target is tomorrow at 20:00. On the day the clocks go forward in London, at 00:30
  against 20:00, the text is "18h 30m 0s", the time that remains, where the clock
  readings are 19 hours and 30 minutes apart.
\<close>

theorem countdown_clock:
  assumes "isClockTime t" and "hoursMinutes t = (Some h, Some m)"
  shows "(let l = LocalTime z now;
              midnight = l - l mod msPerDay;
              tod = h * 3600 + m * 60;
              sec = (l mod msPerDay) div 1000;
              today = UTC z (midnight + tod * 1000 + l mod 1000);
              target = (if today < now then UTC z (LocalTime z today + msPerDay) else today)
          in 0 \<le> h \<and> h < 24 \<and> 0 \<le> m \<and> m < 60
             \<and> countdownTarget z now t = Some target
             \<and> (now \<le> target \<longrightarrow>
                   calculateCountdown z now t = durationText ((target - now) div 1000))
             \<and> (steadyClock z now \<longrightarrow>
                   target = UTC z (midnight + (if tod < sec then msPerDay else 0)
                                   + tod * 1000 + l mod 1000)
                   \<and> target = now + ((tod - sec) mod 86400) * 1000
                   \<and> calculateCountdown z now t = durationText ((tod - sec) mod 86400)
                   \<and> (l mod 1000 = 0 \<longrightarrow> target = specCountdownTarget z now h m)))"
proof -
  from clock_parse [OF assms]
  have r: "0 \<le> h" "h < 24" "0 \<le> m" "m < 60" by simp_all
  define target where "target =
    (let l = LocalTime z now;
         today = UTC z ((l - l mod msPerDay) + (h * 3600 + m * 60) * 1000 + l mod 1000)
     in if today < now then UTC z (LocalTime z today + msPerDay) else today)"
  have tg: "countdownTarget z now t = Some target"
    unfolding target_def by (rule target_any_zone [OF assms(2)])
  have shown: "now \<le> target \<Longrightarrow>
      calculateCountdown z now t = durationText ((target - now) div 1000)"
    by (rule countdown_of_target [OF tg])
  have st: "target = UTC z ((LocalTime z now - LocalTime z now mod msPerDay)
                   + (if h * 3600 + m * 60 < (LocalTime z now mod msPerDay) div 1000
                      then msPerDay else 0)
                   + (h * 3600 + m * 60) * 1000 + LocalTime z now mod 1000)"
      "target = now + ((h * 3600 + m * 60 - (LocalTime z now mod msPerDay) div 1000) mod 86400) * 1000"
      "calculateCountdown z now t =
           durationText ((h * 3600 + m * 60 - (LocalTime z now mod msPerDay) div 1000) mod 86400)"
      "LocalTime z now mod 1000 = 0 \<Longrightarrow> target = specCountdownTarget z now h m"
    if s: "steadyClock z now"
    using steady_target [OF assms(2) r s] steady_countdown [OF assms(2) r s]
      steady_spec_target [OF assms(2) r s] tg
    by simp_all
  have unfolded: "target =
      (if UTC z ((LocalTime z now - LocalTime z now mod msPerDay) + (h * 3600 + m * 60) * 1000
                 + LocalTime z now mod 1000) < now
       then UTC z (LocalTime z
                     (UTC z ((LocalTime z now - LocalTime z now mod msPerDay)
                             + (h * 3600 + m * 60) * 1000 + LocalTime z now mod 1000))
                   + msPerDay)
       else UTC z ((LocalTime z now - LocalTime z now mod msPerDay) + (h * 3600 + m * 60) * 1000
                   + LocalTime z now mod 1000))"
    unfolding target_def Let_def ..
  show ?thesis
    unfolding Let_def unfolded [symmetric]
    by (intro conjI impI) (rule r tg shown st; assumption)+
qed

theorem countdown_clock_witness:
  "calculateCountdown (fixedZone 0) 71970000 ''20:00'' = ''0h 0m 30s''
   \<and> calculateCountdown (fixedZone 3600000) 68370250 ''20:00'' = ''0h 0m 30s''
   \<and> countdownTarget (fixedZone 0) 72001000 ''20:00'' = Some (86400000 + 72000000)
   \<and> calculateCountdown londonMarch2024 1711845000000 ''20:00'' = ''18h 30m 0s''
   \<and> calculateCountdown londonMarch2024 1712084370000 ''20:00'' = ''0h 0m 30s''"
proof -
  have a: "isClockTime ''20:00''" by code_simp
  have b: "hoursMinutes ''20:00'' = (Some 20, Some 0)" by code_simp
  have "calculateCountdown (fixedZone 0) 71970000 ''20:00''
          = durationText ((20 * 3600 + 0 * 60 - (71970000 mod msPerDay) div 1000) mod 86400)"
    using countdown_clock [OF a b, of "fixedZone 0" 71970000] steady_fixedZone [of 0 71970000]
    by (simp add: Let_def fixedZone_def)
  also have "\<dots> = ''0h 0m 30s''" by code_simp
  finally have 1: "calculateCountdown (fixedZone 0) 71970000 ''20:00'' = ''0h 0m 30s''" .
  have "calculateCountdown (fixedZone 3600000) 68370250 ''20:00''
          = durationText ((20 * 3600 + 0 * 60 - (71970250 mod msPerDay) div 1000) mod 86400)"
    using countdown_clock [OF a b, of "fixedZone 3600000" 68370250]
      steady_fixedZone [of 3600000 68370250]
    by (simp add: Let_def fixedZone_def)
  also have "\<dots> = ''0h 0m 30s''" by code_simp
  finally have 2: "calculateCountdown (fixedZone 3600000) 68370250 ''20:00'' = ''0h 0m 30s''" .
  have "countdownTarget (fixedZone 0) 72001000 ''20:00''
          = Some (72001000 + ((20 * 3600 + 0 * 60 - (72001000 mod msPerDay) div 1000) mod 86400) * 1000)"
    using countdown_clock [OF a b, of "fixedZone 0" 72001000] steady_fixedZone [of 0 72001000]
    by (simp add: Let_def fixedZone_def)
  also have "\<dots> = Some (86400000 + 72000000)" by (simp add: msPerDay_def)
  finally have 3: "countdownTarget (fixedZone 0) 72001000 ''20:00'' = Some (86400000 + 72000000)" .
  have l: "LocalTime londonMarch2024 1711845000000 = 1711845000000" by code_simp
  have u: "UTC londonMarch2024 1711915200000 = 1711911600000" by code_simp
  have "calculateCountdown londonMarch2024 1711845000000 ''20:00''
          = durationText ((1711911600000 - 1711845000000) div 1000)"
    using countdown_clock [OF a b, of londonMarch2024 1711845000000]
    by (simp add: Let_def l u msPerDay_def)
  also have "\<dots> = ''18h 30m 0s''" by code_simp
  finally have 4: "calculateCountdown londonMarch2024 1711845000000 ''20:00'' = ''18h 30m 0s''" .
  have "calculateCountdown londonMarch2024 1712084370000 ''20:00''
          = durationText ((20 * 3600 + 0 * 60 - (1712087970000 mod msPerDay) div 1000) mod 86400)"
    using countdown_clock [OF a b, of londonMarch2024 1712084370000] steady_london_april
    by (simp add: Let_def london_april_local)
  also have "\<dots> = ''0h 0m 30s''" by code_simp
  finally show ?thesis using 1 2 3 4 by simp
qed

section \<open>Properties of the subscription lifecycle\<close>

lemma liveChannels_append: "liveChannels (xs @ ys) = foldl applyCall (liveChannels xs) ys"
  by (simp add: liveChannels_def)

lemma slotAgrees_frame:
  "realtime t = realtime s \<Longrightarrow> subscriptionRef t = subscriptionRef s \<Longrightarrow> slotAgrees s \<Longrightarrow> slotAgrees t"
  by (simp add: slotAgrees_def)

lemma unsubscribeRef_realtime:
  "realtime (unsubscribeRef msg s) = realtime s @ (case subscriptionRef s of None \<Rightarrow> [] | Some c \<Rightarrow> [Unsubscribe c])"
  by (simp add: unsubscribeRef_def split: option.splits)

lemma unsubscribeRef_ref: "subscriptionRef (unsubscribeRef msg s) = None"
  by (simp add: unsubscribeRef_def split: option.splits)

lemma unsubscribeRef_next: "nextChannel (unsubscribeRef msg s) = nextChannel s"
  by (simp add: unsubscribeRef_def split: option.splits)

lemma subscribeRef_realtime:
  "realtime (subscribeRef f s) = realtime s @ [Subscribe (Channel (nextChannel s) f)]"
  by (simp add: subscribeRef_def Let_def)

lemma subscribeRef_ref: "subscriptionRef (subscribeRef f s) = Some (Channel (nextChannel s) f)"
  by (simp add: subscribeRef_def Let_def)

lemma slotAgrees_unsubscribe:
  assumes "slotAgrees s"
  shows "slotAgrees (unsubscribeRef msg s)"
proof (cases "subscriptionRef s")
  case None
  then show ?thesis using assms by (simp add: unsubscribeRef_def)
next
  case (Some c)
  have live: "liveChannels (realtime s) = [c]"
    using assms Some by (simp add: slotAgrees_def)
  have "length (liveChannels p) \<le> 1" if "prefix p (realtime s @ [Unsubscribe c])" for p
  proof -
    from that consider "prefix p (realtime s)" | "p = realtime s @ [Unsubscribe c]"
      by auto
    then show ?thesis
    proof cases
      case 1
      then show ?thesis using assms by (simp add: slotAgrees_def)
    next
      case 2
      then show ?thesis by (simp add: liveChannels_append live)
    qed
  qed
  then show ?thesis
    using Some live
    by (simp add: slotAgrees_def unsubscribeRef_realtime unsubscribeRef_ref liveChannels_append)
qed

lemma slotAgrees_subscribe:
  assumes "slotAgrees s" and "subscriptionRef s = None"
  shows "slotAgrees (subscribeRef f s)"
proof -
  have live: "liveChannels (realtime s) = []"
    using assms by (simp add: slotAgrees_def)
  have "length (liveChannels p) \<le> 1"
    if "prefix p (realtime s @ [Subscribe (Channel (nextChannel s) f)])" for p
  proof -
    from that consider "prefix p (realtime s)"
      | "p = realtime s @ [Subscribe (Channel (nextChannel s) f)]"
      by auto
    then show ?thesis
    proof cases
      case 1
      then show ?thesis using assms by (simp add: slotAgrees_def)
    next
      case 2
      then show ?thesis by (simp add: liveChannels_append live)
    qed
  qed
  then show ?thesis
    using live
    by (simp add: slotAgrees_def subscribeRef_realtime subscribeRef_ref liveChannels_append)
qed

lemma slotAgrees_resubscribe:
  "slotAgrees s \<Longrightarrow> slotAgrees (subscribeRef f (unsubscribeRef msg s))"
  by (simp add: slotAgrees_subscribe slotAgrees_unsubscribe unsubscribeRef_ref)

lemma resubscribe_realtime:
  "realtime (subscribeRef f (unsubscribeRef msg s)) =
     realtime s @ (case subscriptionRef s of None \<Rightarrow> [] | Some c \<Rightarrow> [Unsubscribe c])
       @ [Subscribe (Channel (nextChannel s) f)]"
  by (simp add: subscribeRef_realtime unsubscribeRef_realtime unsubscribeRef_next)

lemma resubscribe_live:
  "slotAgrees s \<Longrightarrow>
     liveChannels (realtime (subscribeRef f (unsubscribeRef msg s))) = [Channel (nextChannel s) f]"
  using slotAgrees_resubscribe [of s f msg]
  by (simp add: slotAgrees_def subscribeRef_ref unsubscribeRef_next)

lemma logLine_frame:
  "realtime (logLine m s) = realtime s \<and> subscriptionRef (logLine m s) = subscriptionRef s
   \<and> nextChannel (logLine m s) = nextChannel s"
  by (simp add: logLine_def)

lemma fetchData_frame:
  "realtime (fetchData e a s) = realtime s \<and> subscriptionRef (fetchData e a s) = subscriptionRef s"
  by (simp add: fetchData_view)

lemma onInsert_frame:
  "realtime (onInsert p s) = realtime s \<and> subscriptionRef (onInsert p s) = subscriptionRef s"
  by (simp add: onInsert_def Let_def logLine_def split: jsval.splits)

lemma onUpdate_frame:
  "realtime (onUpdate p s) = realtime s \<and> subscriptionRef (onUpdate p s) = subscriptionRef s"
  by (simp add: onUpdate_def Let_def logLine_def split: jsval.splits)

lemma funpow_frame:
  fixes f :: "'a subscription_scheme \<Rightarrow> 'a subscription_scheme"
  assumes "\<And>s. realtime (f s) = realtime s \<and> subscriptionRef (f s) = subscriptionRef s"
  shows "realtime ((f ^^ n) s) = realtime s \<and> subscriptionRef ((f ^^ n) s) = subscriptionRef s"
  by (induction n) (simp_all add: assms)

lemma occupancyEffect_realtime:
  "k \<noteq> [] \<Longrightarrow>
     realtime (occupancyEffect (Some k) s) =
       realtime s @ (case subscriptionRef s of None \<Rightarrow> [] | Some c \<Rightarrow> [Unsubscribe c])
         @ [Subscribe (Channel (nextChannel s) k)]"
  using resubscribe_realtime [of k "''Cleaning up subscription''"
      "logLine ''Setting up venue occupancy for event:'' s"]
  by (simp add: occupancyEffect_def cleanup_def fetchData_start_def logLine_frame)

lemma cleanup_frame:
  "realtime (cleanup s) = realtime s @ (case subscriptionRef s of None \<Rightarrow> [] | Some c \<Rightarrow> [Unsubscribe c])
   \<and> subscriptionRef (cleanup s) = None \<and> nextChannel (cleanup s) = nextChannel s"
  by (simp add: cleanup_def unsubscribeRef_realtime unsubscribeRef_ref unsubscribeRef_next)

lemma occupancyStep_ok: "slotAgrees s \<Longrightarrow> slotAgrees (occupancyStep s e)"
proof (cases e)
  case (RunEffect k)
  assume s: "slotAgrees s"
  have l: "slotAgrees (logLine m s)" for m
    using s by (rule slotAgrees_frame [rotated 2]) (simp_all add: logLine_frame)
  show ?thesis
  proof (cases "k = None \<or> k = Some []")
    case True
    then show ?thesis
      using RunEffect by (auto simp add: occupancyEffect_def cleanup_def l slotAgrees_unsubscribe)
  next
    case False
    then obtain x where k: "k = Some x" "x \<noteq> []" by (cases k) auto
    have "slotAgrees (subscribeRef x (cleanup (logLine ''Setting up venue occupancy for event:'' s)))"
      unfolding cleanup_def by (rule slotAgrees_resubscribe [OF l])
    then have "slotAgrees (fetchData_start (subscribeRef x (cleanup (logLine ''Setting up venue occupancy for event:'' s))))"
      by (rule slotAgrees_frame [rotated 2]) (simp_all add: fetchData_start_def)
    then show ?thesis using RunEffect k by (simp add: occupancyEffect_def)
  qed
next
  case RunCleanup
  assume "slotAgrees s"
  then show ?thesis using RunCleanup by (simp add: cleanup_def slotAgrees_unsubscribe)
next
  case (InsertNotification p)
  assume "slotAgrees s"
  then show ?thesis
    unfolding InsertNotification occupancyStep.simps
    by (rule slotAgrees_frame [rotated 2]) (simp_all add: funpow_frame [OF onInsert_frame])
next
  case (UpdateNotification p)
  assume "slotAgrees s"
  then show ?thesis
    unfolding UpdateNotification occupancyStep.simps
    by (rule slotAgrees_frame [rotated 2]) (simp_all add: funpow_frame [OF onUpdate_frame])
next
  case (FetchSettled ev att)
  assume "slotAgrees s"
  then show ?thesis
    unfolding FetchSettled occupancyStep.simps
    by (rule slotAgrees_frame [rotated 2]) (simp_all add: fetchData_frame)
qed

lemma occupancy_foldl_ok: "slotAgrees s \<Longrightarrow> slotAgrees (foldl occupancyStep s es)"
  by (induction es arbitrary: s) (simp_all add: occupancyStep_ok)

lemma occupancyRun_ok: "slotAgrees (occupancyRun es)"
  unfolding occupancyRun_def
  by (rule occupancy_foldl_ok) (simp add: slotAgrees_def initialOccupancy_def liveChannels_def)

lemma dashboardStep_ok: "slotAgrees s \<Longrightarrow> slotAgrees (dashboardStep s e)"
proof (cases e)
  case DashboardEffect
  assume "slotAgrees s"
  then show ?thesis
    using DashboardEffect by (simp add: dashboardEffect_def dashboardCleanup_def slotAgrees_resubscribe)
next
  case DashboardCleanup
  assume "slotAgrees s"
  then show ?thesis using DashboardCleanup by (simp add: dashboardCleanup_def slotAgrees_unsubscribe)
next
  case IncidentNotification
  assume "slotAgrees s"
  then show ?thesis using IncidentNotification by simp
next
  case (CheckSettled ev)
  assume "slotAgrees s"
  then show ?thesis
    unfolding CheckSettled dashboardStep.simps
    by (rule slotAgrees_frame [rotated 2])
      (simp_all add: checkCurrentEvent_def logError_def split: awaited.splits)
next
  case (StatsSettled ev inc)
  assume "slotAgrees s"
  then show ?thesis
    unfolding StatsSettled dashboardStep.simps
    by (rule slotAgrees_frame [rotated 2])
      (simp_all add: fetchIncidentStats_def fetchIncidentStats_try_def logError_def
        split: awaited.splits option.splits)
qed

lemma dashboard_foldl_ok: "slotAgrees s \<Longrightarrow> slotAgrees (foldl dashboardStep s es)"
  by (induction es arbitrary: s) (simp_all add: dashboardStep_ok)

lemma dashboardRun_ok: "slotAgrees (dashboardRun es)"
  unfolding dashboardRun_def
  by (rule dashboard_foldl_ok) (simp add: slotAgrees_def initialDashboard_def liveChannels_def)

lemma dashboardEffect_realtime:
  "realtime (dashboardEffect d) =
     realtime d @ (case subscriptionRef d of None \<Rightarrow> [] | Some c \<Rightarrow> [Unsubscribe c])
       @ [Subscribe (Channel (nextChannel d) [])]"
  by (simp add: dashboardEffect_def dashboardCleanup_def resubscribe_realtime)

lemma occupancyEffect_after_cleanup:
  "k \<noteq> [] \<Longrightarrow>
     realtime (occupancyEffect (Some k) (cleanup s)) =
       realtime s @ (case subscriptionRef s of None \<Rightarrow> [] | Some c \<Rightarrow> [Unsubscribe c])
         @ [Subscribe (Channel (nextChannel s) k)]"
  by (simp add: occupancyEffect_realtime cleanup_frame)

lemma occupancyEffect_live:
  assumes "slotAgrees s" and "k \<noteq> []"
  shows "liveChannels (realtime (occupancyEffect (Some k) s)) = [Channel (nextChannel s) k]"
proof -
  have "slotAgrees (logLine ''Setting up venue occupancy for event:'' s)"
    using assms(1) by (rule slotAgrees_frame [rotated 2]) (simp_all add: logLine_frame)
  from resubscribe_live [OF this, of k "''Cleaning up subscription''"] assms(2)
  show ?thesis
    by (simp add: occupancyEffect_def cleanup_def fetchData_start_def logLine_frame)
qed

text \<open>
  C2. Whatever sequence of effect runs, cleanups, notifications and settled fetches an
  instance goes through, at every point of its history of subscribe and unsubscribe
  calls at most one of its channels is open; this holds for the occupancy view and for
  the Dashboard. Running the effect with a new key appends to the history the
  unsubscribe of the channel held (if one is held) followed by the subscribe of the new
  channel, whether or not the framework ran the returned cleanup first, and afterwards
  the new channel is the only one open.
\<close>

theorem one_live_channel:
  "(\<forall>p. prefix p (realtime (occupancyRun events)) \<longrightarrow> length (liveChannels p) \<le> 1)
   \<and> (\<forall>p. prefix p (realtime (dashboardRun devents)) \<longrightarrow> length (liveChannels p) \<le> 1)
   \<and> (keyB \<noteq> [] \<longrightarrow>
        (let s = occupancyRun events;
             closing = (case subscriptionRef s of None \<Rightarrow> [] | Some old \<Rightarrow> [Unsubscribe old]);
             new = Channel (nextChannel s) keyB
         in liveChannels (realtime s)
              = (case subscriptionRef s of None \<Rightarrow> [] | Some old \<Rightarrow> [old])
            \<and> realtime (occupancyEffect (Some keyB) s) = realtime s @ closing @ [Subscribe new]
            \<and> realtime (occupancyEffect (Some keyB) (cleanup s))
                = realtime s @ closing @ [Subscribe new]
            \<and> liveChannels (realtime (occupancyEffect (Some keyB) s)) = [new]))
   \<and> (let d = dashboardRun devents;
           closing = (case subscriptionRef d of None \<Rightarrow> [] | Some old \<Rightarrow> [Unsubscribe old])
       in realtime (dashboardEffect d)
            = realtime d @ closing @ [Subscribe (Channel (nextChannel d) [])])"
  using occupancyRun_ok [of events] dashboardRun_ok [of devents]
    occupancyEffect_realtime [of keyB "occupancyRun events"]
    occupancyEffect_after_cleanup [of keyB "occupancyRun events"]
    occupancyEffect_live [OF occupancyRun_ok, of keyB events]
    dashboardEffect_realtime [of "dashboardRun devents"]
  by (simp add: slotAgrees_def Let_def)

lemma run_AB:
  "realtime (occupancyRun [RunEffect (Some ''A''), RunCleanup, RunEffect (Some ''B'')])
     = [ Subscribe (Channel 0 ''A''), Unsubscribe (Channel 0 ''A''),
         Subscribe (Channel 1 ''B'') ]"
  by code_simp

theorem one_live_channel_witness:
  "length (liveChannels [Subscribe (Channel 0 ''A''), Unsubscribe (Channel 0 ''A'')]) \<le> 1
   \<and> length (liveChannels
        (realtime (occupancyRun [RunEffect (Some ''A''), RunCleanup, RunEffect (Some ''B'')])))
      \<le> 1
   \<and> realtime (occupancyEffect (Some ''B'') (occupancyRun [RunEffect (Some ''A'')]))
      = [ Subscribe (Channel 0 ''A''), Unsubscribe (Channel 0 ''A''),
          Subscribe (Channel 1 ''B'') ]"
proof -
  let ?es = "[RunEffect (Some ''A''), RunCleanup, RunEffect (Some ''B'')]"
  have a: "prefix [Subscribe (Channel 0 ''A''), Unsubscribe (Channel 0 ''A'')]
             (realtime (occupancyRun ?es))"
    by (simp add: run_AB)
  have b: "prefix (realtime (occupancyRun ?es)) (realtime (occupancyRun ?es))"
    by simp
  have s1: "subscriptionRef (occupancyRun [RunEffect (Some ''A'')]) = Some (Channel 0 ''A'')"
    "nextChannel (occupancyRun [RunEffect (Some ''A'')]) = 1"
    "realtime (occupancyRun [RunEffect (Some ''A'')]) = [Subscribe (Channel 0 ''A'')]"
    by code_simp+
  from one_live_channel [of ?es "[]" "''B''"] a b
  have 1: "length (liveChannels [Subscribe (Channel 0 ''A''), Unsubscribe (Channel 0 ''A'')]) \<le> 1"
    and 2: "length (liveChannels (realtime (occupancyRun ?es))) \<le> 1"
    by blast+
  from one_live_channel [of "[RunEffect (Some ''A'')]" "[]" "''B''"] s1
  have 3: "realtime (occupancyEffect (Some ''B'') (occupancyRun [RunEffect (Some ''A'')]))
      = [ Subscribe (Channel 0 ''A''), Unsubscribe (Channel 0 ''A''),
          Subscribe (Channel 1 ''B'') ]"
    by (simp add: Let_def)
  from 1 2 3 show ?thesis by blast
qed

lemma cleanup_view:
  "currentCount (cleanup s) = currentCount s \<and> loading (cleanup s) = loading s
   \<and> venueCapacity (cleanup s) = venueCapacity s"
  by (simp add: cleanup_def unsubscribeRef_def split: option.splits)

lemma cleanup_live: "slotAgrees s \<Longrightarrow> liveChannels (realtime (cleanup s)) = []"
  using slotAgrees_unsubscribe [of s "''Cleaning up subscription''"]
  by (simp add: cleanup_def slotAgrees_def unsubscribeRef_ref)

lemma fetchData_after_cleanup:
  "currentCount (fetchData ev att (cleanup s)) = currentCount (fetchData ev att s)
   \<and> venueCapacity (fetchData ev att (cleanup s)) = venueCapacity (fetchData ev att s)
   \<and> loading (fetchData ev att (cleanup s)) = False"
  by (simp add: fetchData_view cleanup_view split: option.splits)

lemma fetchData_applies:
  "currentCount (fetchData (Resolved cap None) (Resolved (Some row) None) s) = count row"
  by (simp add: fetchData_view occupancyReadFails_def)

lemma dashboard_after_cleanup:
  "incidentStats (dashboardCleanup d) = incidentStats d
   \<and> incidentStats (fetchIncidentStats (Resolved (Some row) e1) (Resolved (Some rows) e2)
        (dashboardCleanup d)) = computeIncidentStats rows"
  by (simp add: dashboardCleanup_def unsubscribeRef_def fetchIncidentStats_def
      fetchIncidentStats_try_def split: option.splits)

text \<open>
  C1, amended. The cleanup changes no view state and empties the channel slot, and in
  every reachable state a notification arriving after the cleanup is handled by no
  channel and changes nothing. There is no flag that marks the view as deactivated: a
  \<open>fetchData\<close> call that settles after the cleanup sets the count, the capacity and
  the loading flag exactly as it would have without the cleanup, and a
  \<open>fetchIncidentStats\<close> call that settles after the Dashboard's cleanup stores the
  statistics it computed.
\<close>

theorem late_result_applied:
  "currentCount (cleanup s) = currentCount s \<and> loading (cleanup s) = loading s
   \<and> venueCapacity (cleanup s) = venueCapacity s
   \<and> subscriptionRef (cleanup s) = None
   \<and> occupancyStep (cleanup (occupancyRun events)) (InsertNotification payload)
       = cleanup (occupancyRun events)
   \<and> occupancyStep (cleanup (occupancyRun events)) (UpdateNotification payload)
       = cleanup (occupancyRun events)
   \<and> currentCount (fetchData ev att (cleanup s)) = currentCount (fetchData ev att s)
   \<and> venueCapacity (fetchData ev att (cleanup s)) = venueCapacity (fetchData ev att s)
   \<and> loading (fetchData ev att (cleanup s)) = False
   \<and> currentCount (fetchData (Resolved cap None) (Resolved (Some arow) None) (cleanup s))
       = count arow
   \<and> incidentStats (dashboardCleanup d) = incidentStats d
   \<and> incidentStats (fetchIncidentStats (Resolved (Some row) e1) (Resolved (Some rows) e2)
        (dashboardCleanup d)) = computeIncidentStats rows"
  using cleanup_view [of s] cleanup_live [OF occupancyRun_ok, of events]
    fetchData_after_cleanup [of ev att s] fetchData_applies [of cap arow "cleanup s"]
    dashboard_after_cleanup [of d row e1 rows e2]
  by (simp add: cleanup_frame)

text \<open>
  C1, as stated, fails: the effect starts a fetch for event A, the key becomes absent
  (the cleanup runs, then the effect without a key), and the fetch then settles. The
  view holds no channel, yet the count goes from 0 to 42, the capacity from 3500 to
  5000, and the loading flag from true to false.
\<close>

theorem late_fetch_counterexample:
  "subscriptionRef (occupancyRun [RunEffect (Some ''A''), RunCleanup, RunEffect None]) = None
   \<and> currentCount (occupancyRun [RunEffect (Some ''A''), RunCleanup, RunEffect None]) = 0
   \<and> loading (occupancyRun [RunEffect (Some ''A''), RunCleanup, RunEffect None]) = True
   \<and> venueCapacity (occupancyRun [RunEffect (Some ''A''), RunCleanup, RunEffect None]) = 3500
   \<and> currentCount (occupancyRun [RunEffect (Some ''A''), RunCleanup, RunEffect None,
        FetchSettled (Resolved (Some \<lparr> venue_capacity = \<lparr> isTruthy = True, parseInt = 5000 \<rparr> \<rparr>) None)
                     (Resolved (Some \<lparr> count = 42 \<rparr>) None)]) = 42
   \<and> loading (occupancyRun [RunEffect (Some ''A''), RunCleanup, RunEffect None,
        FetchSettled (Resolved (Some \<lparr> venue_capacity = \<lparr> isTruthy = True, parseInt = 5000 \<rparr> \<rparr>) None)
                     (Resolved (Some \<lparr> count = 42 \<rparr>) None)]) = False
   \<and> venueCapacity (occupancyRun [RunEffect (Some ''A''), RunCleanup, RunEffect None,
        FetchSettled (Resolved (Some \<lparr> venue_capacity = \<lparr> isTruthy = True, parseInt = 5000 \<rparr> \<rparr>) None)
                     (Resolved (Some \<lparr> count = 42 \<rparr>) None)]) = 5000"
  by code_simp

end
